theory Spec2Isabelle
  imports Complex_Main
begin

section \<open>The JavaScript values the component computes with\<close>

text \<open>
  \<^verbatim>\<open>DensityChart.tsx\<close> handles JavaScript numbers, strings and JSBI big integers.
  A JavaScript number is a binary64 value. Every finite binary64 value is a rational,
  so the model takes a superset: a number is NaN, one of the two infinities, or any
  rational. Whatever is proved for every \<open>number\<close> holds for every binary64 value.
  The two zeros are identified: the component tests numbers only with truthiness,
  \<^verbatim>\<open>> 0\<close>, \<^verbatim>\<open>===\<close> and \<^verbatim>\<open>toFixed\<close>, and none of them tells \<^verbatim>\<open>-0\<close> from \<^verbatim>\<open>+0\<close>.

  A string is a list of code units; HOL's \<open>char\<close> covers the code units below 256.
  A JSBI big integer is an \<open>int\<close>.
\<close>

datatype number = NaN | Infinity | NegInfinity | Finite rat

text \<open>\<^verbatim>\<open>Boolean(n)\<close>, the truthiness of a number: false for NaN and for zero.\<close>

fun truthy :: "number \<Rightarrow> bool" where
  "truthy NaN = False"
| "truthy (Finite q) = (q \<noteq> 0)"
| "truthy Infinity = True"
| "truthy NegInfinity = True"

text \<open>\<^verbatim>\<open>n > 0\<close>: false for NaN.\<close>

fun gt0 :: "number \<Rightarrow> bool" where
  "gt0 (Finite q) = (0 < q)"
| "gt0 Infinity = True"
| "gt0 NaN = False"
| "gt0 NegInfinity = False"

text \<open>\<^verbatim>\<open>a === b\<close> on numbers: NaN is not equal to itself.\<close>

definition strictEq :: "number \<Rightarrow> number \<Rightarrow> bool" where
  "strictEq a b = (a \<noteq> NaN \<and> a = b)"

subsection \<open>Rounding a rational to binary64\<close>

text \<open>
  The Number value for a mathematical value (ECMA-262, 6.1.6.1): round to the nearest
  binary64 value, ties to the even significand; a result of magnitude \<open>2 ^ 1024\<close>
  becomes an infinity.
\<close>

definition pow_int :: "rat \<Rightarrow> int \<Rightarrow> rat" where
  "pow_int b e = (if 0 \<le> e then b ^ nat e else 1 / b ^ nat (- e))"

text \<open>\<open>ilog2 q\<close> is the integer \<open>e\<close> with \<open>2 ^ e \<le> q < 2 ^ (e + 1)\<close>, for \<open>q > 0\<close>.\<close>

function bitLength :: "int \<Rightarrow> int" where
  "bitLength n = (if n \<le> 0 then 0 else 1 + bitLength (n div 2))"
  by pat_completeness auto
termination
  by (relation "measure nat") auto

declare bitLength.simps [simp del]

definition ilog2 :: "rat \<Rightarrow> int" where
  "ilog2 q =
     (let e = bitLength (fst (quotient_of q)) - bitLength (snd (quotient_of q))
      in if pow_int 2 e \<le> q then e else e - 1)"

definition roundHalfEven :: "rat \<Rightarrow> int" where
  "roundHalfEven m =
     (let f = \<lfloor>m\<rfloor>; r = m - of_int f
      in if r < 1 / 2 then f
         else if 1 / 2 < r then f + 1
         else if even f then f else f + 1)"

definition roundDouble :: "rat \<Rightarrow> number" where
  "roundDouble q =
     (if q = 0 then Finite 0
      else
        let a = \<bar>q\<bar>;
            u = max (ilog2 a - 52) (- 1074);
            v = of_int (roundHalfEven (a / pow_int 2 u)) * pow_int 2 u
        in if 2 ^ 1024 \<le> v then (if 0 < q then Infinity else NegInfinity)
           else Finite (if 0 < q then v else - v))"

subsection \<open>Decimal digits\<close>

definition isDigit :: "char \<Rightarrow> bool" where
  "isDigit c = (48 \<le> (of_char c :: int) \<and> (of_char c :: int) \<le> 57)"

definition digitsValue :: "string \<Rightarrow> int" where
  "digitsValue ds = foldl (\<lambda>a c. 10 * a + (of_char c - 48)) 0 ds"

text \<open>The decimal digits of an integer \<open>n \<ge> 0\<close>, without leading zeros.\<close>

function natDigits :: "int \<Rightarrow> string" where
  "natDigits n =
     (if n < 10 then [char_of (48 + n)]
      else natDigits (n div 10) @ [char_of (48 + n mod 10)])"
  by pat_completeness auto
termination
  by (relation "measure nat") auto

declare natDigits.simps [simp del]

text \<open>\<^verbatim>\<open>JSBI.prototype.toString()\<close>: the decimal digits, with a minus sign below zero.\<close>

definition JSBI_toString :: "int \<Rightarrow> string" where
  "JSBI_toString i = (if i < 0 then CHR ''-'' # natDigits (- i) else natDigits i)"

subsection \<open>parseFloat\<close>

text \<open>
  \<^verbatim>\<open>parseFloat(s)\<close> (ECMA-262, 19.2.4): skip leading white space, take the longest
  prefix that is a \<^verbatim>\<open>StrDecimalLiteral\<close> (an optional sign, then \<^verbatim>\<open>Infinity\<close> or
  digits with an optional fraction and an optional exponent), and return the Number
  value for it; NaN when there is no such prefix.
\<close>

definition isWhiteSpace :: "char \<Rightarrow> bool" where
  "isWhiteSpace c = ((of_char c :: int) \<in> {9, 10, 11, 12, 13, 32, 160})"

definition splitSign :: "string \<Rightarrow> bool \<times> string" where
  "splitSign s =
     (case s of
        c # r \<Rightarrow> if c = CHR ''-'' then (True, r) else if c = CHR ''+'' then (False, r) else (False, s)
      | [] \<Rightarrow> (False, s))"

text \<open>The exponent part at the head of \<open>s\<close>, or 0 when \<open>s\<close> does not start with one.\<close>

definition exponentPart :: "string \<Rightarrow> int" where
  "exponentPart s =
     (case s of
        c # r \<Rightarrow>
          if c = CHR ''e'' \<or> c = CHR ''E'' then
            (let (neg, r') = splitSign r; ds = takeWhile isDigit r'
             in if ds = [] then 0
                else if neg then - digitsValue ds else digitsValue ds)
          else 0
      | [] \<Rightarrow> 0)"

definition parseFloat :: "string \<Rightarrow> number" where
  "parseFloat s =
     (let (neg, r) = splitSign (dropWhile isWhiteSpace s)
      in if take 8 r = ''Infinity'' then (if neg then NegInfinity else Infinity)
         else
           let ip = takeWhile isDigit r;
               r1 = dropWhile isDigit r;
               hasDot = (r1 \<noteq> [] \<and> hd r1 = CHR ''.'');
               fp = (if hasDot then takeWhile isDigit (tl r1) else []);
               r2 = (if hasDot then dropWhile isDigit (tl r1) else r1)
           in if ip = [] \<and> fp = [] then NaN
              else
                let mv = (of_int (digitsValue ip) + of_int (digitsValue fp) / 10 ^ length fp)
                           * pow_int 10 (exponentPart r2)
                in roundDouble (if neg then - mv else mv))"

subsection \<open>Number.prototype.toFixed\<close>

datatype js_error = RangeError

text \<open>
  \<^verbatim>\<open>Number.prototype.toString\<close> for a finite value \<open>a \<ge> 10 ^ 21\<close> (ECMA-262,
  6.1.6.1.20): integers \<open>n\<close>, \<open>k\<close> and \<open>s\<close> with \<open>10 ^ (k - 1) \<le> s < 10 ^ k\<close>, with
  \<open>s * 10 ^ (n - k)\<close> rounding to \<open>a\<close> and with \<open>k\<close> as small as possible, written in
  exponent form with the exponent \<open>n - 1\<close>. Where \<open>a\<close> has \<open>n0\<close> integer digits, \<open>n\<close> is
  \<open>n0\<close>, or \<open>n0 + 1\<close> when the power \<open>10 ^ n0\<close> itself rounds to \<open>a\<close> (then \<open>s = 1\<close>, as for
  the binary64 value nearest to \<open>10 ^ 23\<close>, which is below it and prints as \<^verbatim>\<open>1e+23\<close>).
  Seventeen digits identify every binary64 value.
\<close>

definition nearestInt :: "rat \<Rightarrow> int" where
  "nearestInt m = \<lfloor>m + 1 / 2\<rfloor>"

text \<open>The digits \<open>s\<close> and the number \<open>n\<close>, for a value \<open>a\<close> of \<open>n0\<close> integer digits.\<close>

definition shortestDigits :: "rat \<Rightarrow> nat \<Rightarrow> int \<times> nat" where
  "shortestDigits a n0 =
     (if roundDouble (10 ^ n0) = Finite a then (1, Suc n0)
      else
        let cands = concat (map (\<lambda>k. [(k, nearestInt (a / 10 ^ (n0 - k))),
                                         (k, \<lfloor>a / 10 ^ (n0 - k)\<rfloor>),
                                         (k, \<lfloor>a / 10 ^ (n0 - k)\<rfloor> + 1)])
                                 [1 ..< 18]);
            ok = filter (\<lambda>(k, s). 10 ^ (k - 1) \<le> s \<and> s < 10 ^ k
                                    \<and> roundDouble (of_int s * 10 ^ (n0 - k)) = Finite a) cands
        in case ok of
             (k, s) # _ \<Rightarrow> (s, n0)
           | [] \<Rightarrow> (nearestInt (a / 10 ^ (n0 - 17)), n0))"

definition toStringLarge :: "rat \<Rightarrow> string" where
  "toStringLarge a =
     (let (s, n) = shortestDigits a (length (natDigits \<lfloor>a\<rfloor>));
          ds = natDigits s
      in (if length ds = 1 then ds else hd ds # CHR ''.'' # tl ds)
         @ ''e+'' @ natDigits (int n - 1))"

text \<open>
  \<^verbatim>\<open>x.toFixed(f)\<close> (ECMA-262, 21.1.3.3), for an integral digit count \<open>f \<ge> 0\<close>: a
  RangeError above 100 digits; the name of a non-finite value; otherwise the integer
  \<open>n\<close> nearest to \<open>x * 10 ^ f\<close> (the larger one on a tie), with a point before its last
  \<open>f\<close> digits.
\<close>

definition toFixed :: "number \<Rightarrow> nat \<Rightarrow> js_error + string" where
  "toFixed x f =
     (if 100 < f then Inl RangeError
      else case x of
        NaN \<Rightarrow> Inr ''NaN''
      | Infinity \<Rightarrow> Inr ''Infinity''
      | NegInfinity \<Rightarrow> Inr ''-Infinity''
      | Finite q \<Rightarrow>
          let sgn = (if q < 0 then ''-'' else ''''); a = \<bar>q\<bar>
          in if 10 ^ 21 \<le> a then Inr (sgn @ toStringLarge a)
             else
               let m = natDigits (nearestInt (a * 10 ^ f));
                   m' = (if f = 0 then m
                         else let z = replicate (f + 1 - length m) CHR ''0'' @ m
                              in take (length z - f) z @ ''.'' @ drop (length z - f) z)
               in Inr (sgn @ m'))"

section \<open>Tick records and chart entries\<close>

text \<open>
  \<^verbatim>\<open>TickProcessed\<close> is declared in \<^verbatim>\<open>constants/ticks\<close>, outside this file; the
  record has the fields that \<^verbatim>\<open>formatData\<close> reads. \<^verbatim>\<open>liquidityActive\<close> is a JSBI
  big integer, the two prices are strings.
\<close>

record TickProcessed =
  tickIdx :: number
  liquidityActive :: int
  tick_price0 :: string
  tick_price1 :: string

record ChartEntry =
  index :: nat
  isCurrent :: bool
  activeLiquidity :: number
  price0 :: number
  price1 :: number

text \<open>\<^verbatim>\<open>Partial<ChartEntry>\<close>: every field may be absent.\<close>

record PartialChartEntry =
  p_index :: "nat option"
  p_isCurrent :: "bool option"
  p_activeLiquidity :: "number option"
  p_price0 :: "number option"
  p_price1 :: "number option"

definition partial :: "ChartEntry \<Rightarrow> PartialChartEntry" where
  "partial e =
     \<lparr>p_index = Some (index e), p_isCurrent = Some (isCurrent e),
      p_activeLiquidity = Some (activeLiquidity e),
      p_price0 = Some (price0 e), p_price1 = Some (price1 e)\<rparr>"

text \<open>One element \<^verbatim>\<open>{ price0: p, activeLiquidity: l }\<close> of \<^verbatim>\<open>sampleData\<close>.\<close>

definition samplePoint :: "rat \<Rightarrow> rat \<Rightarrow> PartialChartEntry" where
  "samplePoint p l =
     \<lparr>p_index = None, p_isCurrent = None, p_activeLiquidity = Some (Finite l),
      p_price0 = Some (Finite p), p_price1 = None\<rparr>"

definition sampleData :: "PartialChartEntry list" where
  "sampleData =
     [samplePoint 0 1, samplePoint 1 2, samplePoint 2 3, samplePoint 3 6,
      samplePoint 4 5, samplePoint 5 3, samplePoint 6 2]"

section \<open>The hook useDensityChartData\<close>

text \<open>
  \<^verbatim>\<open>DensityChartData\<close> is the object the hook returns. The record \<open>hook\<close> extends it
  with the two further values that \<^verbatim>\<open>usePoolTickData\<close> hands to the hook: together
  they are what the hook's body sees at one render, namely the three state cells
  (\<open>formattedData\<close>, \<open>priceAtActiveTick\<close>, \<open>maxLiquidity\<close>) and the five results of
  \<^verbatim>\<open>usePoolTickData\<close>, which is an external collaborator and so an input here.
\<close>

record DensityChartData =
  loading :: bool
  syncing :: bool
  error :: bool
  priceAtActiveTick :: "number option"
  maxLiquidity :: number
  formattedData :: "ChartEntry list option"

record hook = DensityChartData +
  activeTick :: "number option"
  tickData :: "TickProcessed list option"

text \<open>
  The first render: \<^verbatim>\<open>useState\<close> starts the three cells at \<^verbatim>\<open>undefined\<close>,
  \<^verbatim>\<open>undefined\<close> and 0; the other five values are the results of \<^verbatim>\<open>usePoolTickData\<close>.
\<close>

definition firstRender ::
  "bool \<Rightarrow> bool \<Rightarrow> bool \<Rightarrow> number option \<Rightarrow> TickProcessed list option \<Rightarrow> hook" where
  "firstRender l s e active_tick tick_data =
     \<lparr>loading = l, syncing = s, error = e,
      priceAtActiveTick = None, maxLiquidity = Finite 0, formattedData = None,
      activeTick = active_tick, tickData = tick_data\<rparr>"

text \<open>The props of \<^verbatim>\<open>DensityChart\<close> that decide what is rendered and which effects run.\<close>

record 'c Props =
  price :: "string option"
  currencyA :: "'c option"
  currencyB :: "'c option"
  feeAmount :: "number option"

text \<open>
  An effect does not change the state cells itself: it calls their setters, and React
  applies the calls, in order, before the next render.
\<close>

datatype setter =
    SetFormattedData "ChartEntry list"
  | SetPriceAtActiveTick number
  | SetMaxLiquidity number

fun applySetter :: "hook \<Rightarrow> setter \<Rightarrow> hook" where
  "applySetter h (SetFormattedData d) = h\<lparr>formattedData := Some d\<rparr>"
| "applySetter h (SetPriceAtActiveTick n) = h\<lparr>priceAtActiveTick := Some n\<rparr>"
| "applySetter h (SetMaxLiquidity n) = h\<lparr>maxLiquidity := n\<rparr>"

definition applySetters :: "hook \<Rightarrow> setter list \<Rightarrow> hook" where
  "applySetters h cs = foldl applySetter h cs"

text \<open>\<^verbatim>\<open>Boolean(xs?.length)\<close>: the array is defined and not empty.\<close>

definition hasLength :: "'a list option \<Rightarrow> bool" where
  "hasLength xs = (case xs of None \<Rightarrow> False | Some l \<Rightarrow> length l \<noteq> 0)"

text \<open>The truthiness of an optional number: \<^verbatim>\<open>undefined\<close>, NaN and 0 are falsy.\<close>

definition truthyOpt :: "number option \<Rightarrow> bool" where
  "truthyOpt n = (case n of None \<Rightarrow> False | Some v \<Rightarrow> truthy v)"

text \<open>The first effect: clear the data when the inputs are cleared.\<close>

definition clearEffect :: "'c Props \<Rightarrow> hook \<Rightarrow> setter list" where
  "clearEffect p h =
     (if (currencyA p = None \<or> currencyB p = None \<or> \<not> truthyOpt (feeAmount p))
         \<and> hasLength (formattedData h)
      then [SetFormattedData []]
      else [])"

text \<open>\<^verbatim>\<open>t.tickIdx === activeTick\<close>, where \<^verbatim>\<open>activeTick\<close> may be \<^verbatim>\<open>undefined\<close>.\<close>

definition isActive :: "number option \<Rightarrow> TickProcessed \<Rightarrow> bool" where
  "isActive active_tick t =
     (case active_tick of None \<Rightarrow> False | Some a \<Rightarrow> strictEq (tickIdx t) a)"

text \<open>
  \<^verbatim>\<open>formatData\<close> is a closure of the hook's body: everything in \<open>hook\<close> is in its
  scope, the three state cells included. Its model therefore takes the whole \<open>hook\<close>
  and reads from it what the code reads, \<^verbatim>\<open>tickData\<close> and \<^verbatim>\<open>activeTick\<close>. The code's
  local \<^verbatim>\<open>let maxLiquidity = JSBI.BigInt(0)\<close> hides the state cell of the same name.

  The loop of \<^verbatim>\<open>formatData\<close>, from index \<open>i\<close> on. It carries \<^verbatim>\<open>newData\<close>, the local
  big integer \<^verbatim>\<open>maxLiquidity\<close> and the setter calls made so far. (The loop is entered
  with a defined \<^verbatim>\<open>tickData\<close> only.)
\<close>

function formatLoop ::
  "hook \<Rightarrow> nat
     \<Rightarrow> ChartEntry list \<times> int \<times> setter list \<Rightarrow> ChartEntry list \<times> int \<times> setter list" where
  "formatLoop h i (newData, maxLiq, calls) =
     (case tickData h of
        None \<Rightarrow> (newData, maxLiq, calls)
      | Some ticks \<Rightarrow>
          if i < length ticks then
            let t = ticks ! i;
                active = isActive (activeTick h) t;
                maxLiq' = (if maxLiq < liquidityActive (ticks ! i)
                           then liquidityActive (ticks ! i) else maxLiq);
                chartEntry =
                  \<lparr>index = i, isCurrent = active,
                   activeLiquidity = parseFloat (JSBI_toString (liquidityActive t)),
                   price0 = parseFloat (tick_price0 t),
                   price1 = parseFloat (tick_price1 t)\<rparr>;
                calls' = (if active then calls @ [SetPriceAtActiveTick (price0 chartEntry)]
                          else calls)
            in formatLoop h (Suc i) (newData @ [chartEntry], maxLiq', calls')
          else (newData, maxLiq, calls))"
  by pat_completeness auto
termination
  by (relation "measure (\<lambda>(h, i, s). (case tickData h of None \<Rightarrow> 0 | Some ticks \<Rightarrow> length ticks) - i)")
     auto

declare formatLoop.simps [simp del]

text \<open>
  \<^verbatim>\<open>formatData\<close>: nothing for an absent or empty \<^verbatim>\<open>tickData\<close>; otherwise the loop,
  then \<^verbatim>\<open>setMaxLiquidity\<close> and \<^verbatim>\<open>setFormattedData\<close> (the test \<^verbatim>\<open>if (newData)\<close>
  always passes, an array being truthy).
\<close>

definition formatData :: "hook \<Rightarrow> setter list" where
  "formatData h =
     (case tickData h of
        None \<Rightarrow> []
      | Some ticks \<Rightarrow>
          if length ticks = 0 then []
          else
            let (newData, maxLiq, calls) = formatLoop h 0 ([], 0, [])
            in calls @ [SetMaxLiquidity (parseFloat (JSBI_toString maxLiq)),
                        SetFormattedData newData])"

text \<open>The second effect: format the ticks unless they are still loading.\<close>

definition formatEffect :: "hook \<Rightarrow> setter list" where
  "formatEffect h = (if \<not> loading h then formatData h else [])"

text \<open>
  The setter calls of one commit in which both effects run (as after the first render,
  or when a dependency of each has changed), in the order of their declaration.
\<close>

definition effects :: "'c Props \<Rightarrow> hook \<Rightarrow> setter list" where
  "effects p h = clearEffect p h @ formatEffect h"

definition useDensityChartData :: "hook \<Rightarrow> DensityChartData" where
  "useDensityChartData h =
     \<lparr>loading = loading h, syncing = syncing h, error = error h,
      priceAtActiveTick = priceAtActiveTick h, maxLiquidity = maxLiquidity h,
      formattedData = formattedData h\<rparr>"

section \<open>The component DensityChart\<close>

text \<open>
  What the component renders, as far as the properties below go: the props of the
  brush container and of the brush, the data of the bar series and of the marker line.
  Colours, sizes, the axis and the brush domain are left out.
\<close>

record Chart =
  allowDraw :: bool
  allowDrag :: bool
  allowResize :: bool
  brushAllowDrag :: bool
  barData :: "PartialChartEntry list"
  lineData :: "(number \<times> number) list option"

datatype Content = NoData | VictoryChart Chart

datatype View = LoaderOnly | Wrapper bool Content

text \<open>\<^verbatim>\<open>formattedData && formattedData?.length === 0\<close>\<close>

definition isEmptyArray :: "'a list option \<Rightarrow> bool" where
  "isEmptyArray xs = (case xs of None \<Rightarrow> False | Some l \<Rightarrow> length l = 0)"

text \<open>
  The \<^verbatim>\<open>VictoryLine\<close>: rendered only for a truthy \<^verbatim>\<open>price\<close>; each point is a pair
  \<open>(x, y)\<close>.
\<close>

definition markerLine :: "string option \<Rightarrow> DensityChartData \<Rightarrow> (number \<times> number) list option" where
  "markerLine pr r =
     (case pr of
        None \<Rightarrow> None
      | Some s \<Rightarrow>
          if s = [] then None
          else Some (case priceAtActiveTick r of
                       None \<Rightarrow> []
                     | Some x \<Rightarrow>
                         if truthy (maxLiquidity r) \<and> truthy x
                         then [(x, Finite 0), (x, maxLiquidity r)]
                         else []))"

definition DensityChart :: "'c Props \<Rightarrow> hook \<Rightarrow> View" where
  "DensityChart p h =
     (let r = useDensityChartData h
      in if loading r then LoaderOnly
         else Wrapper (syncing r)
                (if isEmptyArray (formattedData r) then NoData
                 else VictoryChart
                        \<lparr>allowDraw = False,
                         allowDrag = hasLength (formattedData r),
                         allowResize = hasLength (formattedData r),
                         brushAllowDrag = hasLength (formattedData r),
                         barData = (case formattedData r of
                                      Some d \<Rightarrow> map partial d
                                    | None \<Rightarrow> sampleData),
                         lineData = markerLine (price p) r\<rparr>))"

text \<open>
  \<^verbatim>\<open>onBrushDomainChangeEnd\<close>. The two callbacks belong to the caller, so the model
  records the calls made, in order, and the exception that ended the handler, if any.
  \<^verbatim>\<open>PRICE_FIXED_DIGITS\<close> is a constant of \<^verbatim>\<open>hooks/usePoolTickData\<close>, outside this
  file, and so a parameter. \<^verbatim>\<open>domain.x\<close> holds numbers, on which \<^verbatim>\<open>Number\<close> is the
  identity.
\<close>

datatype callback = OnLeftRangeInput string | OnRightRangeInput string

definition onBrushDomainChangeEnd ::
  "nat \<Rightarrow> number \<times> number \<Rightarrow> callback list \<times> js_error option" where
  "onBrushDomainChangeEnd PRICE_FIXED_DIGITS domain =
     (let leftRangeValue = fst domain;
          rightRangeValue = snd domain;
          left = (if gt0 leftRangeValue
                  then (case toFixed leftRangeValue PRICE_FIXED_DIGITS of
                          Inl e \<Rightarrow> ([], Some e)
                        | Inr s \<Rightarrow> ([OnLeftRangeInput s], None))
                  else ([], None))
      in case snd left of
           Some e \<Rightarrow> left
         | None \<Rightarrow>
             if gt0 rightRangeValue
             then (case toFixed rightRangeValue PRICE_FIXED_DIGITS of
                     Inl e \<Rightarrow> (fst left, Some e)
                   | Inr s \<Rightarrow> (fst left @ [OnRightRangeInput s], None))
             else left)"

section \<open>Closed forms and example inputs\<close>

text \<open>The chart entry that the loop builds at index \<open>i\<close>.\<close>

definition entryAt :: "number option \<Rightarrow> TickProcessed list \<Rightarrow> nat \<Rightarrow> ChartEntry" where
  "entryAt active_tick ticks i =
     \<lparr>index = i, isCurrent = isActive active_tick (ticks ! i),
      activeLiquidity = parseFloat (JSBI_toString (liquidityActive (ticks ! i))),
      price0 = parseFloat (tick_price0 (ticks ! i)),
      price1 = parseFloat (tick_price1 (ticks ! i))\<rparr>"

text \<open>The calls of \<^verbatim>\<open>setPriceAtActiveTick\<close> that the loop makes: one per active tick.\<close>

definition priceCalls :: "number option \<Rightarrow> TickProcessed list \<Rightarrow> setter list" where
  "priceCalls active_tick ticks =
     map (\<lambda>j. SetPriceAtActiveTick (price0 (entryAt active_tick ticks j)))
       (filter (\<lambda>j. isActive active_tick (ticks ! j)) [0 ..< length ticks])"

text \<open>The points of the marker line that a view shows, if it shows the line at all.\<close>

fun markerOf :: "View \<Rightarrow> (number \<times> number) list option" where
  "markerOf (Wrapper s (VictoryChart c)) = lineData c"
| "markerOf (Wrapper s NoData) = None"
| "markerOf LoaderOnly = None"

text \<open>
  Inputs for the examples below: two ticks, the second one active; a hook at its first
  render, with the state cells as \<^verbatim>\<open>useState\<close> initialises them; props with both
  currencies and a fee tier.
\<close>

definition ex_tickA :: TickProcessed where
  "ex_tickA = \<lparr>tickIdx = Finite 0, liquidityActive = 5,
               tick_price0 = ''1.0000'', tick_price1 = ''1.0000''\<rparr>"

definition ex_tickB :: TickProcessed where
  "ex_tickB = \<lparr>tickIdx = Finite 60, liquidityActive = 7,
               tick_price0 = ''2.0000'', tick_price1 = ''0.5000''\<rparr>"

definition ex_hook :: hook where
  "ex_hook = firstRender False False False (Some (Finite 60)) (Some [ex_tickA, ex_tickB])"

definition ex_entry :: ChartEntry where
  "ex_entry = \<lparr>index = 0, isCurrent = True, activeLiquidity = Finite 7,
               price0 = Finite 2, price1 = Finite (1 / 2)\<rparr>"

definition ex_props :: "string Props" where
  "ex_props = \<lparr>price = Some ''2'', currencyA = Some ''ETH'', currencyB = Some ''DAI'',
               feeAmount = Some (Finite 3000)\<rparr>"

section \<open>Lemmas\<close>

subsection \<open>Parsing the decimal string of a big integer\<close>

text \<open>
  \<^verbatim>\<open>parseFloat(b.toString())\<close> is the binary64 value nearest to the big integer \<open>b\<close>,
  and it is truthy exactly when \<open>b\<close> is not zero.
\<close>

lemma pow_int_power_int: "pow_int b e = b powi e"
  by (simp add: pow_int_def power_int_def power_inverse divide_inverse)

lemma isDigit_char_of: "0 \<le> d \<Longrightarrow> d < 10 \<Longrightarrow> isDigit (char_of (48 + d :: int))"
  by (simp add: isDigit_def)

lemma digit_value_char_of:
  "0 \<le> d \<Longrightarrow> d < 10 \<Longrightarrow> (of_char (char_of (48 + d :: int)) :: int) - 48 = d"
  by simp

lemma digitsValue_snoc:
  "digitsValue (ds @ [c]) = 10 * digitsValue ds + (of_char c - 48)"
  by (simp add: digitsValue_def)

lemma natDigits_sound:
  "0 \<le> n \<Longrightarrow>
   natDigits n \<noteq> [] \<and> (\<forall>c \<in> set (natDigits n). isDigit c) \<and> digitsValue (natDigits n) = n"
proof (induction n rule: natDigits.induct)
  case (1 n)
  show ?case
  proof (cases "n < 10")
    case True
    with "1.prems" show ?thesis
      by (subst (1 2 3) natDigits.simps) (simp add: isDigit_def digitsValue_def)
  next
    case False
    then have ih: "natDigits (n div 10) \<noteq> [] \<and> (\<forall>c \<in> set (natDigits (n div 10)). isDigit c)
                 \<and> digitsValue (natDigits (n div 10)) = n div 10"
      using "1.IH" "1.prems" by simp
    have m: "0 \<le> n mod 10" "n mod 10 < 10" by simp_all
    have e: "natDigits n = natDigits (n div 10) @ [char_of (48 + n mod 10)]"
      using False by (subst natDigits.simps) simp
    show ?thesis
      unfolding e using ih isDigit_char_of [OF m] digit_value_char_of [OF m]
      by (simp add: digitsValue_snoc del: of_char_of)
  qed
qed

lemma isDigit_not_special:
  "isDigit c \<Longrightarrow>
   \<not> isWhiteSpace c \<and> c \<noteq> CHR ''-'' \<and> c \<noteq> CHR ''+'' \<and> c \<noteq> CHR ''I'' \<and> c \<noteq> CHR ''.''"
  by (auto simp: isDigit_def isWhiteSpace_def)

lemma parseFloat_unsigned_digits:
  assumes "ds \<noteq> []" and "\<forall>c \<in> set ds. isDigit c"
  shows "parseFloat ds = roundDouble (of_int (digitsValue ds))"
proof -
  from assms obtain c cs where ds: "ds = c # cs" and c: "isDigit c"
    by (cases ds) auto
  note s = isDigit_not_special [OF c]
  have w: "dropWhile isWhiteSpace ds = ds" using s by (simp add: ds)
  have sg: "splitSign ds = (False, ds)" using s by (simp add: ds splitSign_def)
  have inf: "take 8 ds \<noteq> ''Infinity''" using s by (auto simp: ds)
  have tw: "takeWhile isDigit ds = ds" and dw: "dropWhile isDigit ds = []"
    using assms(2) by simp_all
  show ?thesis
    unfolding parseFloat_def w sg
    using inf assms(1)
    by (simp add: tw dw Let_def exponentPart_def pow_int_def digitsValue_def)
qed

lemma parseFloat_negative_digits:
  assumes "ds \<noteq> []" and "\<forall>c \<in> set ds. isDigit c"
  shows "parseFloat (CHR ''-'' # ds) = roundDouble (- of_int (digitsValue ds))"
proof -
  from assms obtain c cs where ds: "ds = c # cs" and c: "isDigit c"
    by (cases ds) auto
  note s = isDigit_not_special [OF c]
  have w: "dropWhile isWhiteSpace (CHR ''-'' # ds) = CHR ''-'' # ds"
    by (simp add: isWhiteSpace_def)
  have sg: "splitSign (CHR ''-'' # ds) = (True, ds)" by (simp add: splitSign_def)
  have inf: "take 8 ds \<noteq> ''Infinity''" using s by (auto simp: ds)
  have tw: "takeWhile isDigit ds = ds" and dw: "dropWhile isDigit ds = []"
    using assms(2) by simp_all
  show ?thesis
    unfolding parseFloat_def w sg
    using inf assms(1)
    by (simp add: tw dw Let_def exponentPart_def pow_int_def digitsValue_def)
qed

lemma parseFloat_JSBI_toString: "parseFloat (JSBI_toString i) = roundDouble (of_int i)"
proof (cases "i < 0")
  case True
  then have "0 \<le> - i" by simp
  from natDigits_sound [OF this] True show ?thesis
    by (simp add: JSBI_toString_def parseFloat_negative_digits)
next
  case False
  then have "0 \<le> i" by simp
  from natDigits_sound [OF this] False show ?thesis
    by (simp add: JSBI_toString_def parseFloat_unsigned_digits)
qed

lemma bitLength_lower: "0 < n \<Longrightarrow> 1 \<le> bitLength n \<and> 2 ^ nat (bitLength n - 1) \<le> n"
proof (induction n rule: bitLength.induct)
  case (1 n)
  have e: "bitLength n = 1 + bitLength (n div 2)"
    using "1.prems" by (subst bitLength.simps) simp
  show ?case
  proof (cases "n div 2 = 0")
    case True
    then have "bitLength (n div 2) = 0" by (simp add: bitLength.simps)
    with e "1.prems" show ?thesis by simp
  next
    case False
    with "1.prems" have p: "0 < n div 2" by simp
    with "1.IH" "1.prems" have ih: "1 \<le> bitLength (n div 2)"
      "2 ^ nat (bitLength (n div 2) - 1) \<le> n div 2"
      by simp_all
    have "nat (bitLength (n div 2)) = Suc (nat (bitLength (n div 2) - 1))"
      using ih(1) by simp
    then have "(2 :: int) ^ nat (bitLength (n div 2)) = 2 * 2 ^ nat (bitLength (n div 2) - 1)"
      by simp
    also have "\<dots> \<le> 2 * (n div 2)" using ih(2) by simp
    also have "\<dots> \<le> n" by simp
    finally show ?thesis using e ih(1) by simp
  qed
qed

lemma ilog2_of_int:
  assumes "1 \<le> n"
  shows "0 \<le> ilog2 (of_int n) \<and> pow_int 2 (ilog2 (of_int n)) \<le> of_int n"
proof -
  from assms have p: "0 < n" by simp
  note b = bitLength_lower [OF p]
  have one: "bitLength 1 = 1"
    by (subst bitLength.simps) (simp add: bitLength.simps)
  have "pow_int 2 (bitLength n - 1) = of_int (2 ^ nat (bitLength n - 1))"
    using b by (simp add: pow_int_def)
  also have "\<dots> \<le> of_int n"
    using b by (subst of_int_le_iff) simp
  finally have le: "pow_int 2 (bitLength n - 1) \<le> of_int n" .
  then have "ilog2 (of_int n) = bitLength n - 1"
    by (simp add: ilog2_def one Let_def)
  with le b show ?thesis by simp
qed

lemma roundHalfEven_ge_one: "1 \<le> m \<Longrightarrow> 1 \<le> roundHalfEven m"
proof -
  assume "1 \<le> m"
  then have "1 \<le> \<lfloor>m\<rfloor>" by simp
  then show ?thesis by (simp add: roundHalfEven_def Let_def)
qed

lemma roundDouble_of_int_truthy: "truthy (roundDouble (of_int i)) \<longleftrightarrow> i \<noteq> 0"
proof (cases "i = 0")
  case True
  then show ?thesis by (simp add: roundDouble_def)
next
  case False
  define n where "n = \<bar>i\<bar>"
  define u where "u = max (ilog2 (of_int n) - 52) (- 1074)"
  define k where "k = roundHalfEven (of_int n / pow_int 2 u)"
  from False have n: "1 \<le> n" by (simp add: n_def)
  note l = ilog2_of_int [OF n]
  have pos: "0 < pow_int 2 u" by (simp add: pow_int_power_int)
  have "pow_int 2 u \<le> pow_int 2 (ilog2 (of_int n))"
    unfolding pow_int_power_int using l by (intro power_int_increasing) (simp_all add: u_def)
  with l have "pow_int 2 u \<le> of_int n" by simp
  with pos have "1 \<le> of_int n / pow_int 2 u" by (simp add: le_divide_eq)
  then have "1 \<le> k" unfolding k_def by (rule roundHalfEven_ge_one)
  define v where "v = of_int k * pow_int 2 u"
  have v: "0 < v" using \<open>1 \<le> k\<close> pos by (simp add: v_def)
  have a: "\<bar>rat_of_int i\<bar> = of_int n" by (simp add: n_def)
  have r: "roundDouble (of_int i) =
          (if 2 ^ 1024 \<le> v
           then (if 0 < i then Infinity else NegInfinity)
           else Finite (if 0 < i then v else - v))"
    using False
    unfolding roundDouble_def a Let_def u_def [symmetric] k_def [symmetric] v_def [symmetric]
    by simp
  have "truthy (roundDouble (of_int i))"
  proof (cases "(2 :: rat) ^ 1024 \<le> v")
    case True
    then show ?thesis unfolding r by (simp only: if_True) simp
  next
    case False
    then show ?thesis unfolding r using v by (simp only: if_False) simp
  qed
  with \<open>i \<noteq> 0\<close> show ?thesis by simp
qed

lemma parseFloat_JSBI_truthy: "truthy (parseFloat (JSBI_toString i)) \<longleftrightarrow> i \<noteq> 0"
  by (simp add: parseFloat_JSBI_toString roundDouble_of_int_truthy)

subsection \<open>The loop of formatData\<close>

lemma formatLoop_step:
  "tickData h = Some ticks \<Longrightarrow> i < length ticks \<Longrightarrow>
   formatLoop h i (nd, m, cs) =
     formatLoop h (Suc i)
       (nd @ [entryAt (activeTick h) ticks i], max m (liquidityActive (ticks ! i)),
        if isActive (activeTick h) (ticks ! i)
        then cs @ [SetPriceAtActiveTick (price0 (entryAt (activeTick h) ticks i))] else cs)"
  by (subst formatLoop.simps) (simp add: Let_def entryAt_def max_def)

lemma formatLoop_done:
  "tickData h = Some ticks \<Longrightarrow> length ticks \<le> i \<Longrightarrow> formatLoop h i s = s"
  by (cases s) (simp add: formatLoop.simps)

lemma formatLoop_closed:
  "tickData h = Some ticks \<Longrightarrow> i \<le> length ticks \<Longrightarrow>
   formatLoop h i (nd, m, cs) =
     (nd @ map (entryAt (activeTick h) ticks) [i ..< length ticks],
      fold (\<lambda>t a. max a (liquidityActive t)) (drop i ticks) m,
      cs @ map (\<lambda>j. SetPriceAtActiveTick (price0 (entryAt (activeTick h) ticks j)))
             (filter (\<lambda>j. isActive (activeTick h) (ticks ! j)) [i ..< length ticks]))"
proof (induction "length ticks - i" arbitrary: i nd m cs)
  case 0
  then have "i = length ticks" by simp
  with 0 show ?case by (simp add: formatLoop_done)
next
  case (Suc k)
  then have lt: "i < length ticks" and k: "k = length ticks - Suc i"
    and le: "Suc i \<le> length ticks" and t: "tickData h = Some ticks"
    by simp_all
  have d: "drop i ticks = ticks ! i # drop (Suc i) ticks"
    using lt by (simp add: Cons_nth_drop_Suc)
  have u: "[i ..< length ticks] = i # [Suc i ..< length ticks]"
    using lt by (simp add: upt_conv_Cons)
  show ?case
    unfolding formatLoop_step [OF t lt] Suc.hyps(1) [OF k t le] d u
    by simp
qed

lemma fold_max_liquidity:
  "fold (\<lambda>t a. max a (liquidityActive t)) ticks m = Max (insert m (liquidityActive ` set ticks))"
proof (induction ticks arbitrary: m)
  case Nil
  show ?case by simp
next
  case (Cons t ticks)
  have "Max (insert (max m (liquidityActive t)) (liquidityActive ` set ticks))
        = Max (insert m (insert (liquidityActive t) (liquidityActive ` set ticks)))"
  proof (cases "ticks = []")
    case True
    then show ?thesis by (simp add: max.commute)
  next
    case False
    then have ne: "liquidityActive ` set ticks \<noteq> {}" by simp
    have fin: "finite (liquidityActive ` set ticks)" by simp
    show ?thesis
      by (simp add: Max_insert [OF fin ne] max.assoc)
  qed
  then show ?case using Cons.IH [of "max m (liquidityActive t)"] by simp
qed

lemma formatData_closed:
  "tickData g = Some ticks \<Longrightarrow> ticks \<noteq> [] \<Longrightarrow>
   formatData g =
     priceCalls (activeTick g) ticks
     @ [SetMaxLiquidity (parseFloat (JSBI_toString (Max (insert 0 (liquidityActive ` set ticks))))),
        SetFormattedData (map (entryAt (activeTick g) ticks) [0 ..< length ticks])]"
  by (simp add: formatData_def formatLoop_closed fold_max_liquidity priceCalls_def)

subsection \<open>Applying the setter calls\<close>

lemma applySetters_append:
  "applySetters h (cs @ ds) = applySetters (applySetters h cs) ds"
  by (simp add: applySetters_def)

lemma formatData_formattedData:
  "tickData g = Some ticks \<Longrightarrow> ticks \<noteq> [] \<Longrightarrow>
   formattedData (applySetters h (formatData g))
     = Some (map (entryAt (activeTick g) ticks) [0 ..< length ticks])"
  by (simp add: formatData_closed applySetters_append) (simp add: applySetters_def)

lemma formatData_maxLiquidity:
  "tickData g = Some ticks \<Longrightarrow> ticks \<noteq> [] \<Longrightarrow>
   maxLiquidity (applySetters h (formatData g))
     = parseFloat (JSBI_toString (Max (insert 0 (liquidityActive ` set ticks))))"
  by (simp add: formatData_closed applySetters_append) (simp add: applySetters_def)

lemma applySetters_frame:
  "loading (applySetters h cs) = loading h \<and> syncing (applySetters h cs) = syncing h
   \<and> error (applySetters h cs) = error h \<and> activeTick (applySetters h cs) = activeTick h
   \<and> tickData (applySetters h cs) = tickData h"
  unfolding applySetters_def
proof (induction cs arbitrary: h)
  case Nil
  show ?case by simp
next
  case (Cons c cs)
  show ?case using Cons.IH [of "applySetter h c"] by (cases c) simp_all
qed

lemma price_setters_last:
  "priceAtActiveTick (foldl applySetter h (map SetPriceAtActiveTick xs))
     = (if xs = [] then priceAtActiveTick h else Some (last xs))"
  by (induction xs rule: rev_induct) simp_all

lemma price_setter_decides:
  "\<exists>x. SetPriceAtActiveTick x \<in> set cs \<Longrightarrow>
   priceAtActiveTick (applySetters h1 cs) = priceAtActiveTick (applySetters h2 cs)"
  unfolding applySetters_def
proof (induction cs rule: rev_induct)
  case Nil
  then show ?case by simp
next
  case (snoc c cs)
  show ?case
  proof (cases c)
    case (SetPriceAtActiveTick x)
    then show ?thesis by simp
  next
    case (SetFormattedData d)
    with snoc.prems have "\<exists>x. SetPriceAtActiveTick x \<in> set cs" by auto
    from snoc.IH [OF this] SetFormattedData show ?thesis by simp
  next
    case (SetMaxLiquidity n)
    with snoc.prems have "\<exists>x. SetPriceAtActiveTick x \<in> set cs" by auto
    from snoc.IH [OF this] SetMaxLiquidity show ?thesis by simp
  qed
qed

lemma formatData_priceAtActiveTick:
  assumes "tickData g = Some ticks" and "ticks \<noteq> []"
  shows "priceAtActiveTick (applySetters h (formatData g))
           = (if filter (\<lambda>j. isActive (activeTick g) (ticks ! j)) [0 ..< length ticks] = []
              then priceAtActiveTick h
              else Some (price0 (entryAt (activeTick g) ticks
                     (last (filter (\<lambda>j. isActive (activeTick g) (ticks ! j))
                              [0 ..< length ticks])))))"
proof -
  let ?atk = "activeTick g"
  let ?js = "filter (\<lambda>j. isActive ?atk (ticks ! j)) [0 ..< length ticks]"
  have c: "priceCalls ?atk ticks
             = map SetPriceAtActiveTick (map (\<lambda>j. price0 (entryAt ?atk ticks j)) ?js)"
    by (simp add: priceCalls_def)
  have "priceAtActiveTick (applySetters h (formatData g))
          = priceAtActiveTick (applySetters h (priceCalls ?atk ticks))"
    using assms by (simp add: formatData_closed applySetters_append) (simp add: applySetters_def)
  also have "\<dots> = (if ?js = [] then priceAtActiveTick h
                      else Some (last (map (\<lambda>j. price0 (entryAt ?atk ticks j)) ?js)))"
    unfolding c applySetters_def price_setters_last by simp
  finally show ?thesis by (simp add: last_map)
qed

subsection \<open>The render and the brush handler\<close>

lemma DensityChart_unfold:
  "DensityChart p h =
     (if loading h then LoaderOnly
      else Wrapper (syncing h)
             (if isEmptyArray (formattedData h) then NoData
              else VictoryChart
                     \<lparr>allowDraw = False,
                      allowDrag = hasLength (formattedData h),
                      allowResize = hasLength (formattedData h),
                      brushAllowDrag = hasLength (formattedData h),
                      barData = (case formattedData h of
                                   Some d \<Rightarrow> map partial d
                                 | None \<Rightarrow> sampleData),
                      lineData = markerLine (price p) (useDensityChartData h)\<rparr>))"
  by (simp add: DensityChart_def Let_def useDensityChartData_def)

lemma toFixed_ok: "f \<le> 100 \<Longrightarrow> \<exists>s. toFixed x f = Inr s"
  by (cases x) (simp_all add: toFixed_def Let_def)

lemma onBrushDomainChangeEnd_closed:
  assumes "toFixed l d = Inr sl" and "toFixed r d = Inr sr"
  shows "onBrushDomainChangeEnd d (l, r) =
           ((if gt0 l then [OnLeftRangeInput sl] else [])
            @ (if gt0 r then [OnRightRangeInput sr] else []), None)"
  using assms by (simp add: onBrushDomainChangeEnd_def Let_def)

section \<open>The brush handler\<close>

text \<open>
  C1, as amended. At the end of a brush change with the new domain \<open>[l, r]\<close>, a bound
  that is greater than 0 is forwarded: \<^verbatim>\<open>onLeftRangeInput\<close> is called with
  \<^verbatim>\<open>l.toFixed(PRICE_FIXED_DIGITS)\<close> when \<open>l > 0\<close>, and \<^verbatim>\<open>onRightRangeInput\<close> with
  \<^verbatim>\<open>r.toFixed(PRICE_FIXED_DIGITS)\<close> when \<open>r > 0\<close>. \<^verbatim>\<open>PRICE_FIXED_DIGITS\<close> is a digit
  count that \<^verbatim>\<open>toFixed\<close> accepts (at most 100).
\<close>

theorem positive_bounds_forwarded:
  assumes "PRICE_FIXED_DIGITS \<le> 100"
  shows "(gt0 l \<longrightarrow>
            (\<exists>s. toFixed l PRICE_FIXED_DIGITS = Inr s
                \<and> OnLeftRangeInput s \<in> set (fst (onBrushDomainChangeEnd PRICE_FIXED_DIGITS (l, r)))))
       \<and> (gt0 r \<longrightarrow>
            (\<exists>s. toFixed r PRICE_FIXED_DIGITS = Inr s
                \<and> OnRightRangeInput s \<in> set (fst (onBrushDomainChangeEnd PRICE_FIXED_DIGITS (l, r)))))"
proof -
  obtain sl sr where "toFixed l PRICE_FIXED_DIGITS = Inr sl" "toFixed r PRICE_FIXED_DIGITS = Inr sr"
    using toFixed_ok [OF assms] by blast
  then show ?thesis
    by (simp add: onBrushDomainChangeEnd_closed)
qed

text \<open>The theorem at the domain \<open>[2, 3]\<close>, with four digits.\<close>

theorem positive_bounds_forwarded_witness:
  "(4 :: nat) \<le> 100 \<and> gt0 (Finite 2) \<and> gt0 (Finite 3)
   \<and> (\<exists>s. toFixed (Finite 2) 4 = Inr s
         \<and> OnLeftRangeInput s \<in> set (fst (onBrushDomainChangeEnd 4 (Finite 2, Finite 3))))
   \<and> (\<exists>s. toFixed (Finite 3) 4 = Inr s
         \<and> OnRightRangeInput s \<in> set (fst (onBrushDomainChangeEnd 4 (Finite 2, Finite 3))))"
proof -
  have d: "(4 :: nat) \<le> 100" by simp
  have l: "gt0 (Finite 2)" and r: "gt0 (Finite 3)" by simp_all
  from positive_bounds_forwarded [OF d, of "Finite 2" "Finite 3"] l r d
  show ?thesis by blast
qed

text \<open>
  The claim as written fails at the domain \<open>[0, 1]\<close>: the handler calls
  \<^verbatim>\<open>onRightRangeInput("1.0000")\<close> only, and \<^verbatim>\<open>onLeftRangeInput\<close> is not called with
  \<^verbatim>\<open>(0).toFixed(4)\<close>, which is \<^verbatim>\<open>"0.0000"\<close>.
\<close>

theorem nonpositive_left_bound_not_forwarded:
  "onBrushDomainChangeEnd 4 (Finite 0, Finite 1) = ([OnRightRangeInput ''1.0000''], None)
   \<and> toFixed (Finite 0) 4 = Inr ''0.0000''
   \<and> OnLeftRangeInput ''0.0000'' \<notin> set (fst (onBrushDomainChangeEnd 4 (Finite 0, Finite 1)))"
  by code_simp

text \<open>
  C5. At the end of a brush change, \<^verbatim>\<open>onLeftRangeInput\<close> is called exactly when the
  left bound is greater than 0, and \<^verbatim>\<open>onRightRangeInput\<close> exactly when the right
  bound is; the two sides do not depend on each other, and the handler ends without an
  exception. \<^verbatim>\<open>PRICE_FIXED_DIGITS\<close> is a digit count that \<^verbatim>\<open>toFixed\<close> accepts.
\<close>

theorem callbacks_iff_positive:
  assumes "PRICE_FIXED_DIGITS \<le> 100"
  shows "snd (onBrushDomainChangeEnd PRICE_FIXED_DIGITS (l, r)) = None
       \<and> ((\<exists>s. OnLeftRangeInput s \<in> set (fst (onBrushDomainChangeEnd PRICE_FIXED_DIGITS (l, r))))
            \<longleftrightarrow> gt0 l)
       \<and> ((\<exists>s. OnRightRangeInput s \<in> set (fst (onBrushDomainChangeEnd PRICE_FIXED_DIGITS (l, r))))
            \<longleftrightarrow> gt0 r)"
proof -
  obtain sl sr where "toFixed l PRICE_FIXED_DIGITS = Inr sl" "toFixed r PRICE_FIXED_DIGITS = Inr sr"
    using toFixed_ok [OF assms] by blast
  then show ?thesis
    by (simp add: onBrushDomainChangeEnd_closed)
qed

text \<open>The theorem at the domain \<open>[-1, 3]\<close>: no call on the left, one on the right.\<close>

theorem callbacks_iff_positive_witness:
  "(4 :: nat) \<le> 100
   \<and> snd (onBrushDomainChangeEnd 4 (Finite (- 1), Finite 3)) = None
   \<and> \<not> (\<exists>s. OnLeftRangeInput s \<in> set (fst (onBrushDomainChangeEnd 4 (Finite (- 1), Finite 3))))
   \<and> (\<exists>s. OnRightRangeInput s \<in> set (fst (onBrushDomainChangeEnd 4 (Finite (- 1), Finite 3))))"
proof -
  have d: "(4 :: nat) \<le> 100" by simp
  have l: "\<not> gt0 (Finite (- 1))" and r: "gt0 (Finite 3)" by simp_all
  from callbacks_iff_positive [OF d, of "Finite (- 1)" "Finite 3"] l r d
  show ?thesis by blast
qed

section \<open>The formatting step\<close>

text \<open>
  C2. For a non-empty \<^verbatim>\<open>tickData\<close> array the formatting step sets \<^verbatim>\<open>formattedData\<close>
  to a series with one entry per tick, in the order of the ticks; entry \<open>i\<close> has
  \<^verbatim>\<open>index\<close> \<open>i\<close>, \<^verbatim>\<open>isCurrent\<close> true exactly when the tick's \<^verbatim>\<open>tickIdx\<close> is
  \<^verbatim>\<open>=== activeTick\<close>, \<^verbatim>\<open>activeLiquidity\<close> the \<^verbatim>\<open>parseFloat\<close> of the decimal string of
  the tick's \<^verbatim>\<open>liquidityActive\<close> (the binary64 value nearest to that big integer), and
  \<^verbatim>\<open>price0\<close>, \<^verbatim>\<open>price1\<close> the \<^verbatim>\<open>parseFloat\<close> of the tick's two price strings.
\<close>

theorem formatting_one_entry_per_tick:
  assumes "\<not> loading h" and "tickData h = Some ticks" and "ticks \<noteq> []"
  shows "\<exists>es. formattedData (applySetters h (formatEffect h)) = Some es
           \<and> length es = length ticks
           \<and> (\<forall>i < length ticks.
                 index (es ! i) = i
               \<and> isCurrent (es ! i) = isActive (activeTick h) (ticks ! i)
               \<and> activeLiquidity (es ! i)
                   = parseFloat (JSBI_toString (liquidityActive (ticks ! i)))
               \<and> activeLiquidity (es ! i) = roundDouble (of_int (liquidityActive (ticks ! i)))
               \<and> price0 (es ! i) = parseFloat (tick_price0 (ticks ! i))
               \<and> price1 (es ! i) = parseFloat (tick_price1 (ticks ! i)))"
proof -
  let ?es = "map (entryAt (activeTick h) ticks) [0 ..< length ticks]"
  have "formattedData (applySetters h (formatEffect h)) = Some ?es"
    using assms(1) by (simp add: formatEffect_def formatData_formattedData [OF assms(2,3)])
  moreover have "length ?es = length ticks" by simp
  moreover have "\<forall>i < length ticks.
                 index (?es ! i) = i
               \<and> isCurrent (?es ! i) = isActive (activeTick h) (ticks ! i)
               \<and> activeLiquidity (?es ! i)
                   = parseFloat (JSBI_toString (liquidityActive (ticks ! i)))
               \<and> activeLiquidity (?es ! i) = roundDouble (of_int (liquidityActive (ticks ! i)))
               \<and> price0 (?es ! i) = parseFloat (tick_price0 (ticks ! i))
               \<and> price1 (?es ! i) = parseFloat (tick_price1 (ticks ! i))"
    by (simp add: entryAt_def parseFloat_JSBI_toString)
  ultimately show ?thesis by blast
qed

text \<open>
  The theorem at the example hook: two ticks give two entries, the second one current,
  with the price \<open>2\<close> parsed from \<^verbatim>\<open>"2.0000"\<close>.
\<close>

theorem formatting_one_entry_per_tick_witness:
  "\<not> loading ex_hook \<and> tickData ex_hook = Some [ex_tickA, ex_tickB]
   \<and> [ex_tickA, ex_tickB] \<noteq> []
   \<and> (\<exists>es. formattedData (applySetters ex_hook (formatEffect ex_hook)) = Some es
         \<and> length es = 2
         \<and> index (es ! 0) = 0 \<and> \<not> isCurrent (es ! 0)
         \<and> index (es ! 1) = 1 \<and> isCurrent (es ! 1)
         \<and> price0 (es ! 1) = Finite 2)"
proof -
  have l: "\<not> loading ex_hook" by (simp add: ex_hook_def firstRender_def)
  have t: "tickData ex_hook = Some [ex_tickA, ex_tickB]" by (simp add: ex_hook_def firstRender_def)
  have n: "[ex_tickA, ex_tickB] \<noteq> []" by simp
  have a: "\<not> isActive (activeTick ex_hook) ex_tickA" "isActive (activeTick ex_hook) ex_tickB"
    by (simp_all add: ex_hook_def firstRender_def ex_tickA_def ex_tickB_def isActive_def strictEq_def)
  have p: "parseFloat (tick_price0 ex_tickB) = Finite 2"
    by code_simp
  from formatting_one_entry_per_tick [OF l t n]
  obtain es where es: "formattedData (applySetters ex_hook (formatEffect ex_hook)) = Some es"
    "length es = length [ex_tickA, ex_tickB]"
    "\<forall>i < length [ex_tickA, ex_tickB].
        index (es ! i) = i
      \<and> isCurrent (es ! i) = isActive (activeTick ex_hook) ([ex_tickA, ex_tickB] ! i)
      \<and> activeLiquidity (es ! i)
          = parseFloat (JSBI_toString (liquidityActive ([ex_tickA, ex_tickB] ! i)))
      \<and> activeLiquidity (es ! i)
          = roundDouble (of_int (liquidityActive ([ex_tickA, ex_tickB] ! i)))
      \<and> price0 (es ! i) = parseFloat (tick_price0 ([ex_tickA, ex_tickB] ! i))
      \<and> price1 (es ! i) = parseFloat (tick_price1 ([ex_tickA, ex_tickB] ! i))"
    by blast
  from es(3) have "index (es ! 0) = 0 \<and> \<not> isCurrent (es ! 0)"
    using a by simp
  moreover from es(3) have "index (es ! 1) = 1 \<and> isCurrent (es ! 1) \<and> price0 (es ! 1) = Finite 2"
    using a p by simp
  moreover have "length es = 2" using es(2) by simp
  ultimately show ?thesis using l t n es(1) by blast
qed

text \<open>
  C10. The formatting step is deterministic in \<^verbatim>\<open>tickData\<close> and \<^verbatim>\<open>activeTick\<close>.
  \<^verbatim>\<open>formatData\<close> has the whole hook in scope: the state cells that its own setters
  change, and the other results of \<^verbatim>\<open>usePoolTickData\<close>. Two runs in hooks that agree on
  \<^verbatim>\<open>tickData\<close> and \<^verbatim>\<open>activeTick\<close>, and differ in anything else, make the same setter
  calls in the same order; over a non-empty array they end with equal \<^verbatim>\<open>formattedData\<close>
  and \<^verbatim>\<open>maxLiquidity\<close>, and with equal \<^verbatim>\<open>priceAtActiveTick\<close> when the pass sets it.
\<close>

theorem formatting_deterministic:
  assumes "activeTick h1 = activeTick h2" and "tickData h1 = tickData h2"
  shows "formatData h1 = formatData h2
       \<and> (loading h1 = loading h2 \<longrightarrow> formatEffect h1 = formatEffect h2)
       \<and> (hasLength (tickData h1) \<longrightarrow>
            formattedData (applySetters h1 (formatData h1))
              = formattedData (applySetters h2 (formatData h2))
          \<and> maxLiquidity (applySetters h1 (formatData h1))
              = maxLiquidity (applySetters h2 (formatData h2)))
       \<and> ((\<exists>x. SetPriceAtActiveTick x \<in> set (formatData h1)) \<longrightarrow>
            priceAtActiveTick (applySetters h1 (formatData h1))
              = priceAtActiveTick (applySetters h2 (formatData h2)))"
proof -
  have eq: "formatData h1 = formatData h2"
  proof (cases "tickData h1")
    case None
    with assms(2) show ?thesis by (simp add: formatData_def)
  next
    case (Some ticks)
    with assms(2) have t2: "tickData h2 = Some ticks" by simp
    show ?thesis
    proof (cases "ticks = []")
      case True
      with Some t2 show ?thesis by (simp add: formatData_def)
    next
      case False
      show ?thesis
        unfolding formatData_closed [OF Some False] formatData_closed [OF t2 False] assms(1) ..
    qed
  qed
  then have ef: "formatEffect h1 = formatEffect h2" if "loading h1 = loading h2"
    using that by (simp add: formatEffect_def)
  have st: "formattedData (applySetters h1 (formatData h1))
              = formattedData (applySetters h2 (formatData h2))
          \<and> maxLiquidity (applySetters h1 (formatData h1))
              = maxLiquidity (applySetters h2 (formatData h2))"
    if "hasLength (tickData h1)"
  proof -
    from that obtain ticks where t: "tickData h1 = Some ticks" and n: "ticks \<noteq> []"
      by (auto simp: hasLength_def split: option.splits)
    with assms(2) have t2: "tickData h2 = Some ticks" by simp
    show ?thesis
      unfolding formatData_formattedData [OF t n] formatData_formattedData [OF t2 n]
        formatData_maxLiquidity [OF t n] formatData_maxLiquidity [OF t2 n] assms(1)
      by simp
  qed
  have pr: "priceAtActiveTick (applySetters h1 (formatData h1))
              = priceAtActiveTick (applySetters h2 (formatData h2))"
    if "\<exists>x. SetPriceAtActiveTick x \<in> set (formatData h1)"
    unfolding eq [symmetric] using that by (rule price_setter_decides)
  from eq ef st pr show ?thesis by blast
qed

text \<open>
  The theorem at the example hook and at a later render of it, which is syncing, has
  the error flag raised and already holds one entry, a price 9 and a maximum 4: both
  runs store the two entries of the two ticks, the maximum 7 and the price 2.
\<close>

theorem formatting_deterministic_witness:
  "activeTick ex_hook
     = activeTick (ex_hook\<lparr>syncing := True, error := True, priceAtActiveTick := Some (Finite 9),
                           maxLiquidity := Finite 4, formattedData := Some [ex_entry]\<rparr>)
   \<and> tickData ex_hook
     = tickData (ex_hook\<lparr>syncing := True, error := True, priceAtActiveTick := Some (Finite 9),
                          maxLiquidity := Finite 4, formattedData := Some [ex_entry]\<rparr>)
   \<and> hasLength (tickData ex_hook)
   \<and> formatData ex_hook
     = formatData (ex_hook\<lparr>syncing := True, error := True, priceAtActiveTick := Some (Finite 9),
                           maxLiquidity := Finite 4, formattedData := Some [ex_entry]\<rparr>)
   \<and> maxLiquidity
        (applySetters
           (ex_hook\<lparr>syncing := True, error := True, priceAtActiveTick := Some (Finite 9),
                     maxLiquidity := Finite 4, formattedData := Some [ex_entry]\<rparr>)
           (formatData
              (ex_hook\<lparr>syncing := True, error := True, priceAtActiveTick := Some (Finite 9),
                        maxLiquidity := Finite 4, formattedData := Some [ex_entry]\<rparr>)))
       = Finite 7
   \<and> priceAtActiveTick
        (applySetters
           (ex_hook\<lparr>syncing := True, error := True, priceAtActiveTick := Some (Finite 9),
                     maxLiquidity := Finite 4, formattedData := Some [ex_entry]\<rparr>)
           (formatData
              (ex_hook\<lparr>syncing := True, error := True, priceAtActiveTick := Some (Finite 9),
                        maxLiquidity := Finite 4, formattedData := Some [ex_entry]\<rparr>)))
       = Some (Finite 2)
   \<and> length (the (formattedData
        (applySetters
           (ex_hook\<lparr>syncing := True, error := True, priceAtActiveTick := Some (Finite 9),
                     maxLiquidity := Finite 4, formattedData := Some [ex_entry]\<rparr>)
           (formatData
              (ex_hook\<lparr>syncing := True, error := True, priceAtActiveTick := Some (Finite 9),
                        maxLiquidity := Finite 4, formattedData := Some [ex_entry]\<rparr>))))) = 2"
proof -
  let ?h2 = "ex_hook\<lparr>syncing := True, error := True, priceAtActiveTick := Some (Finite 9),
                      maxLiquidity := Finite 4, formattedData := Some [ex_entry]\<rparr>"
  have a: "activeTick ex_hook = activeTick ?h2" and t: "tickData ex_hook = tickData ?h2"
    by simp_all
  have tk: "tickData ex_hook = Some [ex_tickA, ex_tickB]"
    and ak: "activeTick ex_hook = Some (Finite 60)"
    by (simp_all add: ex_hook_def firstRender_def)
  have n: "hasLength (tickData ex_hook)" and ne: "[ex_tickA, ex_tickB] \<noteq> []"
    by (simp_all add: tk hasLength_def)
  have pf: "parseFloat (JSBI_toString 7) = Finite 7"
    and pp: "parseFloat ''2.0000'' = Finite 2"
    by code_simp+
  have u: "[0 ..< 2] = [0, Suc 0]"
    by (simp add: numeral_2_eq_2)
  have js: "filter (\<lambda>j. isActive (Some (Finite 60)) ([ex_tickA, ex_tickB] ! j)) [0 ..< 2] = [1]"
    unfolding u by (simp add: isActive_def strictEq_def ex_tickA_def ex_tickB_def)
  have len: "length [ex_tickA, ex_tickB] = 2" by simp
  have m1: "maxLiquidity (applySetters ex_hook (formatData ex_hook)) = Finite 7"
    unfolding formatData_maxLiquidity [OF tk ne]
    using pf by (simp add: ex_tickA_def ex_tickB_def)
  have p1: "priceAtActiveTick (applySetters ex_hook (formatData ex_hook)) = Some (Finite 2)"
    unfolding formatData_priceAtActiveTick [OF tk ne] ak len js
    using pp by (simp add: entryAt_def ex_tickB_def)
  have f1: "length (the (formattedData (applySetters ex_hook (formatData ex_hook)))) = 2"
    unfolding formatData_formattedData [OF tk ne] by simp
  have c1: "\<exists>x. SetPriceAtActiveTick x \<in> set (formatData ex_hook)"
    unfolding formatData_closed [OF tk ne] priceCalls_def ak len js by simp
  note th = formatting_deterministic [OF a t]
  from th have e: "formatData ex_hook = formatData ?h2"
    by blast
  from th n have "formattedData (applySetters ex_hook (formatData ex_hook))
                    = formattedData (applySetters ?h2 (formatData ?h2))"
    and "maxLiquidity (applySetters ex_hook (formatData ex_hook))
                    = maxLiquidity (applySetters ?h2 (formatData ?h2))"
    by blast+
  with f1 m1 have f2: "length (the (formattedData (applySetters ?h2 (formatData ?h2)))) = 2"
    and m2: "maxLiquidity (applySetters ?h2 (formatData ?h2)) = Finite 7"
    by simp_all
  from th c1 have "priceAtActiveTick (applySetters ex_hook (formatData ex_hook))
                     = priceAtActiveTick (applySetters ?h2 (formatData ?h2))"
    by blast
  with p1 have p2: "priceAtActiveTick (applySetters ?h2 (formatData ?h2)) = Some (Finite 2)"
    by simp
  from a t n e m2 p2 f2 show ?thesis by blast
qed

text \<open>
  C6, as amended. While \<^verbatim>\<open>loading\<close> is true the formatting step is skipped: the
  formatting effect calls no setter and so leaves \<^verbatim>\<open>formattedData\<close>,
  \<^verbatim>\<open>priceAtActiveTick\<close> and \<^verbatim>\<open>maxLiquidity\<close> as they were. After both effects,
  \<^verbatim>\<open>priceAtActiveTick\<close> and \<^verbatim>\<open>maxLiquidity\<close> have their previous values, and so has
  \<^verbatim>\<open>formattedData\<close> unless the clearing effect, which does not test \<^verbatim>\<open>loading\<close>,
  resets it to the empty array (an input is cleared and \<^verbatim>\<open>formattedData\<close> is not
  empty). The component renders the loading spinner alone, before and after the
  effects.
\<close>

theorem loading_skips_formatting:
  assumes "loading h"
  shows "formatEffect h = []
       \<and> formattedData (applySetters h (formatEffect h)) = formattedData h
       \<and> priceAtActiveTick (applySetters h (formatEffect h)) = priceAtActiveTick h
       \<and> maxLiquidity (applySetters h (formatEffect h)) = maxLiquidity h
       \<and> effects p h = clearEffect p h
       \<and> priceAtActiveTick (applySetters h (effects p h)) = priceAtActiveTick h
       \<and> maxLiquidity (applySetters h (effects p h)) = maxLiquidity h
       \<and> formattedData (applySetters h (effects p h))
           = (if (currencyA p = None \<or> currencyB p = None \<or> \<not> truthyOpt (feeAmount p))
                 \<and> hasLength (formattedData h)
              then Some [] else formattedData h)
       \<and> DensityChart p h = LoaderOnly
       \<and> DensityChart p (applySetters h (effects p h)) = LoaderOnly"
proof -
  have f: "formatEffect h = []"
    using assms by (simp add: formatEffect_def)
  then have e: "effects p h = clearEffect p h"
    by (simp add: effects_def)
  have l: "loading (applySetters h (clearEffect p h))"
    using assms by (simp add: applySetters_frame)
  have c: "formattedData (applySetters h (clearEffect p h))
             = (if (currencyA p = None \<or> currencyB p = None \<or> \<not> truthyOpt (feeAmount p))
                   \<and> hasLength (formattedData h)
                then Some [] else formattedData h)"
    by (auto simp: clearEffect_def applySetters_def)
  have k: "priceAtActiveTick (applySetters h (clearEffect p h)) = priceAtActiveTick h"
    "maxLiquidity (applySetters h (clearEffect p h)) = maxLiquidity h"
    by (simp_all add: clearEffect_def applySetters_def)
  have d: "DensityChart p h = LoaderOnly"
    "DensityChart p (applySetters h (clearEffect p h)) = LoaderOnly"
    using assms l by (simp_all add: DensityChart_unfold)
  have u: "applySetters h [] = h"
    by (simp add: applySetters_def)
  show ?thesis
    unfolding e f u using c k d by blast
qed

text \<open>
  The theorem at the example hook, now loading and holding one entry: with the props as
  they are nothing changes, and with \<^verbatim>\<open>currencyA\<close> cleared only \<^verbatim>\<open>formattedData\<close>
  changes.
\<close>

theorem loading_skips_formatting_witness:
  "loading (ex_hook\<lparr>loading := True, formattedData := Some [ex_entry]\<rparr>)
   \<and> hasLength (tickData (ex_hook\<lparr>loading := True, formattedData := Some [ex_entry]\<rparr>))
   \<and> formatEffect (ex_hook\<lparr>loading := True, formattedData := Some [ex_entry]\<rparr>) = []
   \<and> formattedData
        (applySetters (ex_hook\<lparr>loading := True, formattedData := Some [ex_entry]\<rparr>)
           (effects ex_props (ex_hook\<lparr>loading := True, formattedData := Some [ex_entry]\<rparr>)))
       = Some [ex_entry]
   \<and> formattedData
        (applySetters (ex_hook\<lparr>loading := True, formattedData := Some [ex_entry]\<rparr>)
           (effects (ex_props\<lparr>currencyA := None\<rparr>)
              (ex_hook\<lparr>loading := True, formattedData := Some [ex_entry]\<rparr>)))
       = Some []
   \<and> maxLiquidity
        (applySetters (ex_hook\<lparr>loading := True, formattedData := Some [ex_entry]\<rparr>)
           (effects (ex_props\<lparr>currencyA := None\<rparr>)
              (ex_hook\<lparr>loading := True, formattedData := Some [ex_entry]\<rparr>)))
       = Finite 0
   \<and> DensityChart ex_props (ex_hook\<lparr>loading := True, formattedData := Some [ex_entry]\<rparr>)
       = LoaderOnly"
proof -
  let ?h = "ex_hook\<lparr>loading := True, formattedData := Some [ex_entry]\<rparr>"
  let ?q = "ex_props\<lparr>currencyA := None\<rparr>"
  have l: "loading ?h" by simp
  have n: "hasLength (tickData ?h)" and hl: "hasLength (formattedData ?h)"
    and f: "formattedData ?h = Some [ex_entry]" and m: "maxLiquidity ?h = Finite 0"
    by (simp_all add: ex_hook_def firstRender_def hasLength_def)
  have c: "\<not> ((currencyA ex_props = None \<or> currencyB ex_props = None
               \<or> \<not> truthyOpt (feeAmount ex_props)) \<and> hasLength (formattedData ?h))"
    by (simp add: ex_props_def truthyOpt_def)
  have d: "(currencyA ?q = None \<or> currencyB ?q = None \<or> \<not> truthyOpt (feeAmount ?q))
           \<and> hasLength (formattedData ?h)"
    using hl by simp
  note a = loading_skips_formatting [OF l, of ex_props]
  note b = loading_skips_formatting [OF l, of ?q]
  from a have 1: "formatEffect ?h = []" and 5: "DensityChart ex_props ?h = LoaderOnly"
    by blast+
  from a have "formattedData (applySetters ?h (effects ex_props ?h))
           = (if (currencyA ex_props = None \<or> currencyB ex_props = None
                   \<or> \<not> truthyOpt (feeAmount ex_props)) \<and> hasLength (formattedData ?h)
              then Some [] else formattedData ?h)"
    by blast
  with c f have 2: "formattedData (applySetters ?h (effects ex_props ?h)) = Some [ex_entry]"
    by simp
  from b have "formattedData (applySetters ?h (effects ?q ?h))
           = (if (currencyA ?q = None \<or> currencyB ?q = None \<or> \<not> truthyOpt (feeAmount ?q))
                 \<and> hasLength (formattedData ?h)
              then Some [] else formattedData ?h)"
    by blast
  with d have 3: "formattedData (applySetters ?h (effects ?q ?h)) = Some []"
    by simp
  from b have "maxLiquidity (applySetters ?h (effects ?q ?h)) = maxLiquidity ?h"
    by blast
  with m have 4: "maxLiquidity (applySetters ?h (effects ?q ?h)) = Finite 0"
    by simp
  from l n 1 2 3 4 5 show ?thesis by blast
qed

text \<open>
  The claim as written fails where an input is cleared while loading: the hook holds one
  entry and \<^verbatim>\<open>loading\<close> is true, the formatting effect makes no call, and after the
  effects of that commit \<^verbatim>\<open>formattedData\<close> is the empty array, not the one entry it was.
\<close>

theorem data_changes_while_loading:
  "loading (ex_hook\<lparr>loading := True, formattedData := Some [ex_entry]\<rparr>)
   \<and> formatEffect (ex_hook\<lparr>loading := True, formattedData := Some [ex_entry]\<rparr>) = []
   \<and> formattedData (ex_hook\<lparr>loading := True, formattedData := Some [ex_entry]\<rparr>)
       = Some [ex_entry]
   \<and> formattedData
        (applySetters (ex_hook\<lparr>loading := True, formattedData := Some [ex_entry]\<rparr>)
           (effects (ex_props\<lparr>currencyA := None\<rparr>)
              (ex_hook\<lparr>loading := True, formattedData := Some [ex_entry]\<rparr>)))
       = Some []
   \<and> Some [ex_entry] \<noteq> (Some [] :: ChartEntry list option)"
  by (simp add: effects_def formatEffect_def clearEffect_def hasLength_def applySetters_def)

section \<open>What the component renders\<close>

text \<open>
  C3, as amended. While \<^verbatim>\<open>loading\<close> is true the component renders the loading
  spinner alone. Otherwise it renders the corner spinner exactly when \<^verbatim>\<open>syncing\<close> is
  true, and the empty-state message exactly when \<^verbatim>\<open>formattedData\<close> is defined and has
  length 0. The \<^verbatim>\<open>error\<close> flag of \<^verbatim>\<open>usePoolTickData\<close> never changes what is rendered.
\<close>

theorem failure_presentation:
  "(loading h \<longrightarrow> DensityChart p h = LoaderOnly)
   \<and> (\<not> loading h \<longrightarrow>
        (\<exists>c. DensityChart p h = Wrapper (syncing h) c
            \<and> (c = NoData \<longleftrightarrow> formattedData h = Some [])))
   \<and> DensityChart p (h\<lparr>error := e\<rparr>) = DensityChart p h"
  by (auto simp: DensityChart_unfold isEmptyArray_def useDensityChartData_def markerLine_def
           split: option.splits)

text \<open>
  The theorem at three renders of the example hook: loading; syncing with an emptied
  series; and the latter with the error flag raised.
\<close>

theorem failure_presentation_witness:
  "loading (ex_hook\<lparr>loading := True\<rparr>)
   \<and> DensityChart ex_props (ex_hook\<lparr>loading := True\<rparr>) = LoaderOnly
   \<and> \<not> loading (ex_hook\<lparr>syncing := True, formattedData := Some []\<rparr>)
   \<and> DensityChart ex_props (ex_hook\<lparr>syncing := True, formattedData := Some []\<rparr>)
       = Wrapper True NoData
   \<and> DensityChart ex_props (ex_hook\<lparr>syncing := True, formattedData := Some []\<rparr>\<lparr>error := True\<rparr>)
       = Wrapper True NoData"
proof -
  let ?h = "ex_hook\<lparr>syncing := True, formattedData := Some []\<rparr>"
  have l: "loading (ex_hook\<lparr>loading := True\<rparr>)" by simp
  have n: "\<not> loading ?h" and s: "syncing ?h" and f: "formattedData ?h = Some []"
    by (simp_all add: ex_hook_def firstRender_def)
  from failure_presentation [of "ex_hook\<lparr>loading := True\<rparr>" ex_props] l
  have 1: "DensityChart ex_props (ex_hook\<lparr>loading := True\<rparr>) = LoaderOnly"
    by blast
  from failure_presentation [of ?h ex_props True] n s f
  have 2: "DensityChart ex_props ?h = Wrapper True NoData"
    and 3: "DensityChart ex_props (?h\<lparr>error := True\<rparr>) = DensityChart ex_props ?h"
    by metis+
  from 1 2 3 l n show ?thesis by simp
qed

text \<open>
  The claim as written fails while loading: with \<^verbatim>\<open>formattedData\<close> defined and of
  length 0, the component renders the spinner alone, not the empty-state message.
\<close>

theorem loading_hides_empty_state:
  "formattedData
     \<lparr>loading = True, syncing = False, error = False, priceAtActiveTick = None,
      maxLiquidity = Finite 0, formattedData = Some [], activeTick = None,
      tickData = None\<rparr> = Some []
   \<and> DensityChart
       \<lparr>price = None, currencyA = None :: string option, currencyB = None, feeAmount = None\<rparr>
       \<lparr>loading = True, syncing = False, error = False, priceAtActiveTick = None,
        maxLiquidity = Finite 0, formattedData = Some [], activeTick = None,
        tickData = None\<rparr>
     = LoaderOnly"
  by (simp add: DensityChart_unfold)

text \<open>
  C4. In a render where \<^verbatim>\<open>loading\<close> is false and \<^verbatim>\<open>formattedData\<close> is undefined, the
  bar series is the seven points of \<^verbatim>\<open>sampleData\<close>, not the empty-state message; the
  message is rendered only for a defined, empty \<^verbatim>\<open>formattedData\<close>. A formatting pass
  over an absent or empty \<^verbatim>\<open>tickData\<close> leaves an undefined \<^verbatim>\<open>formattedData\<close> undefined,
  as it is at the first render.
\<close>

theorem undefined_data_renders_sample:
  "(\<not> loading h \<and> formattedData h = None \<longrightarrow>
      (\<exists>c. DensityChart p h = Wrapper (syncing h) (VictoryChart c)
           \<and> barData c = sampleData \<and> length (barData c) = 7))
   \<and> (\<forall>s. DensityChart p h = Wrapper s NoData \<longrightarrow> formattedData h = Some [])
   \<and> (formattedData h = None \<and> (tickData h = None \<or> tickData h = Some []) \<longrightarrow>
        formattedData (applySetters h (formatEffect h)) = None)
   \<and> formattedData (firstRender l sy e atk td) = None"
  by (auto simp: DensityChart_unfold isEmptyArray_def sampleData_def formatEffect_def
                 formatData_def applySetters_def firstRender_def
           split: option.splits if_splits)

text \<open>
  The theorem at the example hook without ticks, at its first render, and at the same
  hook with an emptied series.
\<close>

theorem undefined_data_renders_sample_witness:
  "\<not> loading (ex_hook\<lparr>tickData := Some []\<rparr>)
   \<and> formattedData (ex_hook\<lparr>tickData := Some []\<rparr>) = None
   \<and> (\<exists>c. DensityChart ex_props (ex_hook\<lparr>tickData := Some []\<rparr>) = Wrapper False (VictoryChart c)
         \<and> barData c = sampleData \<and> length (barData c) = 7)
   \<and> formattedData (applySetters (ex_hook\<lparr>tickData := Some []\<rparr>)
                      (formatEffect (ex_hook\<lparr>tickData := Some []\<rparr>))) = None
   \<and> DensityChart ex_props (ex_hook\<lparr>formattedData := Some []\<rparr>) = Wrapper False NoData
   \<and> formattedData (ex_hook\<lparr>formattedData := Some []\<rparr>) = Some []"
proof -
  let ?h = "ex_hook\<lparr>tickData := Some []\<rparr>"
  let ?g = "ex_hook\<lparr>formattedData := Some []\<rparr>"
  have n: "\<not> loading ?h" and f: "formattedData ?h = None" and t: "tickData ?h = Some []"
    and s: "syncing ?h = False"
    by (simp_all add: ex_hook_def firstRender_def)
  have g: "DensityChart ex_props ?g = Wrapper False NoData"
    by (simp add: DensityChart_unfold ex_hook_def firstRender_def isEmptyArray_def)
  note a = undefined_data_renders_sample [of ?h ex_props]
  note b = undefined_data_renders_sample [of ?g ex_props]
  from a n f s
  have 1: "\<exists>c. DensityChart ex_props ?h = Wrapper False (VictoryChart c)
         \<and> barData c = sampleData \<and> length (barData c) = 7"
    by metis
  from a f t have 2: "formattedData (applySetters ?h (formatEffect ?h)) = None"
    by blast
  from b g have 3: "formattedData ?g = Some []"
    by blast
  from 1 2 3 n f g show ?thesis by blast
qed

text \<open>
  C7. Where the chart is rendered, \<^verbatim>\<open>allowDrag\<close> and \<^verbatim>\<open>allowResize\<close> of the brush
  container and \<^verbatim>\<open>allowDrag\<close> of the brush are all \<^verbatim>\<open>Boolean(formattedData?.length)\<close>,
  which is true exactly for a defined, non-empty \<^verbatim>\<open>formattedData\<close>; \<^verbatim>\<open>allowDraw\<close> is
  false.
\<close>

theorem brush_follows_data:
  assumes "DensityChart p h = Wrapper s (VictoryChart c)"
  shows "allowDrag c = hasLength (formattedData h)
       \<and> allowResize c = hasLength (formattedData h)
       \<and> brushAllowDrag c = hasLength (formattedData h)
       \<and> \<not> allowDraw c
       \<and> (hasLength (formattedData h) \<longleftrightarrow> (\<exists>e es. formattedData h = Some (e # es)))"
proof -
  have "hasLength (formattedData h) \<longleftrightarrow> (\<exists>e es. formattedData h = Some (e # es))"
    by (cases "formattedData h") (auto simp: hasLength_def neq_Nil_conv)
  moreover have "allowDrag c = hasLength (formattedData h)
       \<and> allowResize c = hasLength (formattedData h)
       \<and> brushAllowDrag c = hasLength (formattedData h)
       \<and> \<not> allowDraw c"
    using assms
    by (auto simp: DensityChart_unfold split: if_splits)
  ultimately show ?thesis by blast
qed

text \<open>
  The theorem at the example hook holding one entry (the brush can be dragged and
  resized) and at its first render (it cannot).
\<close>

theorem brush_follows_data_witness:
  "(\<exists>c. DensityChart ex_props (ex_hook\<lparr>formattedData := Some [ex_entry]\<rparr>)
           = Wrapper False (VictoryChart c)
       \<and> allowDrag c \<and> allowResize c \<and> brushAllowDrag c \<and> \<not> allowDraw c)
   \<and> (\<exists>c. DensityChart ex_props ex_hook = Wrapper False (VictoryChart c)
       \<and> \<not> allowDrag c \<and> \<not> allowResize c \<and> \<not> brushAllowDrag c \<and> \<not> allowDraw c)"
proof -
  let ?h = "ex_hook\<lparr>formattedData := Some [ex_entry]\<rparr>"
  obtain c where c: "DensityChart ex_props ?h = Wrapper False (VictoryChart c)"
    by (simp add: DensityChart_unfold ex_hook_def firstRender_def isEmptyArray_def)
  obtain d where d: "DensityChart ex_props ex_hook = Wrapper False (VictoryChart d)"
    by (simp add: DensityChart_unfold ex_hook_def firstRender_def isEmptyArray_def)
  have hl: "hasLength (formattedData ?h)" and nl: "\<not> hasLength (formattedData ex_hook)"
    by (simp_all add: hasLength_def ex_hook_def firstRender_def)
  from brush_follows_data [OF c] hl
  have 1: "allowDrag c \<and> allowResize c \<and> brushAllowDrag c \<and> \<not> allowDraw c"
    by blast
  from brush_follows_data [OF d] nl
  have 2: "\<not> allowDrag d \<and> \<not> allowResize d \<and> \<not> brushAllowDrag d \<and> \<not> allowDraw d"
    by blast
  from c d 1 2 show ?thesis by blast
qed

section \<open>Clearing the data\<close>

text \<open>
  C8, as amended. When \<^verbatim>\<open>currencyA\<close>, \<^verbatim>\<open>currencyB\<close> or \<^verbatim>\<open>feeAmount\<close> is undefined while
  \<^verbatim>\<open>formattedData\<close> is not empty, the first effect resets \<^verbatim>\<open>formattedData\<close> to the
  empty array, so that the empty-state message is shown once \<^verbatim>\<open>loading\<close> is false; when
  \<^verbatim>\<open>formattedData\<close> is already empty or undefined, the effect changes nothing.
\<close>

theorem clearing_inputs_resets_data:
  "((currencyA p = None \<or> currencyB p = None \<or> feeAmount p = None)
      \<and> hasLength (formattedData h) \<longrightarrow>
       clearEffect p h = [SetFormattedData []]
     \<and> formattedData (applySetters h (clearEffect p h)) = Some []
     \<and> (\<not> loading h \<longrightarrow>
          DensityChart p (applySetters h (clearEffect p h)) = Wrapper (syncing h) NoData))
   \<and> (formattedData h = None \<or> formattedData h = Some [] \<longrightarrow>
       clearEffect p h = [] \<and> applySetters h (clearEffect p h) = h)"
  by (auto simp: clearEffect_def applySetters_def hasLength_def truthyOpt_def DensityChart_unfold
                 isEmptyArray_def)

text \<open>
  The theorem at the example hook holding one entry, with \<^verbatim>\<open>currencyB\<close> cleared, and at
  the example hook at its first render.
\<close>

theorem clearing_inputs_resets_data_witness:
  "currencyB (ex_props\<lparr>currencyB := None\<rparr>) = None
   \<and> hasLength (formattedData (ex_hook\<lparr>formattedData := Some [ex_entry]\<rparr>))
   \<and> \<not> loading (ex_hook\<lparr>formattedData := Some [ex_entry]\<rparr>)
   \<and> formattedData
        (applySetters (ex_hook\<lparr>formattedData := Some [ex_entry]\<rparr>)
           (clearEffect (ex_props\<lparr>currencyB := None\<rparr>)
              (ex_hook\<lparr>formattedData := Some [ex_entry]\<rparr>))) = Some []
   \<and> DensityChart (ex_props\<lparr>currencyB := None\<rparr>)
        (applySetters (ex_hook\<lparr>formattedData := Some [ex_entry]\<rparr>)
           (clearEffect (ex_props\<lparr>currencyB := None\<rparr>)
              (ex_hook\<lparr>formattedData := Some [ex_entry]\<rparr>))) = Wrapper False NoData
   \<and> formattedData ex_hook = None
   \<and> applySetters ex_hook (clearEffect (ex_props\<lparr>currencyB := None\<rparr>) ex_hook) = ex_hook"
proof -
  let ?p = "ex_props\<lparr>currencyB := None\<rparr>"
  let ?h = "ex_hook\<lparr>formattedData := Some [ex_entry]\<rparr>"
  have b: "currencyB ?p = None" by simp
  have hl: "hasLength (formattedData ?h)" by (simp add: hasLength_def)
  have n: "\<not> loading ?h" and s: "syncing ?h = False" and f: "formattedData ex_hook = None"
    by (simp_all add: ex_hook_def firstRender_def)
  note a = clearing_inputs_resets_data [of ?p ?h]
  from a b hl
  have 1: "formattedData (applySetters ?h (clearEffect ?p ?h)) = Some []"
    by blast
  from a b hl n
  have "DensityChart ?p (applySetters ?h (clearEffect ?p ?h)) = Wrapper (syncing ?h) NoData"
    by blast
  with s have 2: "DensityChart ?p (applySetters ?h (clearEffect ?p ?h)) = Wrapper False NoData"
    by simp
  from clearing_inputs_resets_data [of ?p ex_hook] f
  have 3: "applySetters ex_hook (clearEffect ?p ex_hook) = ex_hook"
    by blast
  from 1 2 3 b hl n f show ?thesis by blast
qed

text \<open>
  The claim as written fails while loading: the effect resets a series of one entry to
  the empty array, and the component then renders the spinner alone, not the
  empty-state message.
\<close>

theorem cleared_data_while_loading:
  "hasLength (formattedData (ex_hook\<lparr>loading := True, formattedData := Some [ex_entry]\<rparr>))
   \<and> currencyA (ex_props\<lparr>currencyA := None\<rparr>) = None
   \<and> formattedData
        (applySetters (ex_hook\<lparr>loading := True, formattedData := Some [ex_entry]\<rparr>)
           (clearEffect (ex_props\<lparr>currencyA := None\<rparr>)
              (ex_hook\<lparr>loading := True, formattedData := Some [ex_entry]\<rparr>))) = Some []
   \<and> DensityChart (ex_props\<lparr>currencyA := None\<rparr>)
        (applySetters (ex_hook\<lparr>loading := True, formattedData := Some [ex_entry]\<rparr>)
           (clearEffect (ex_props\<lparr>currencyA := None\<rparr>)
              (ex_hook\<lparr>loading := True, formattedData := Some [ex_entry]\<rparr>))) = LoaderOnly"
  by (simp add: clearEffect_def hasLength_def applySetters_def DensityChart_unfold)

section \<open>The maximum liquidity and the marker line\<close>

text \<open>
  C9, as amended. After a formatting pass over a non-empty \<^verbatim>\<open>tickData\<close> array,
  \<^verbatim>\<open>maxLiquidity\<close> is the \<^verbatim>\<open>parseFloat\<close> of the decimal string of the larger of 0 and
  the maximum \<^verbatim>\<open>liquidityActive\<close> over the ticks, compared as big integers; that is
  the maximum itself when some tick's \<^verbatim>\<open>liquidityActive\<close> is not negative. In the
  render of the resulting state, when \<^verbatim>\<open>price\<close> is a non-empty string, that maximum is
  positive and \<^verbatim>\<open>priceAtActiveTick\<close> is truthy (defined, not zero and not NaN), the
  marker line goes from \<open>y = 0\<close> to \<open>y = maxLiquidity\<close> at \<open>x = priceAtActiveTick\<close>.
\<close>

theorem max_liquidity_and_marker_line:
  fixes h :: hook and p :: "'c Props"
  defines "h' \<equiv> applySetters h (formatEffect h)"
  assumes "\<not> loading h" and "tickData h = Some ticks" and "ticks \<noteq> []"
  shows "maxLiquidity h'
           = parseFloat (JSBI_toString (max 0 (Max (liquidityActive ` set ticks))))
       \<and> ((\<exists>t \<in> set ticks. 0 \<le> liquidityActive t) \<longrightarrow>
            maxLiquidity h' = parseFloat (JSBI_toString (Max (liquidityActive ` set ticks))))
       \<and> (price p = Some s \<and> s \<noteq> [] \<and> 0 < Max (liquidityActive ` set ticks)
            \<and> priceAtActiveTick h' = Some x \<and> truthy x \<longrightarrow>
            markerOf (DensityChart p h') = Some [(x, Finite 0), (x, maxLiquidity h')])"
proof -
  have ne: "liquidityActive ` set ticks \<noteq> {}" and fin: "finite (liquidityActive ` set ticks)"
    using assms by simp_all
  have m: "Max (insert 0 (liquidityActive ` set ticks))
             = max 0 (Max (liquidityActive ` set ticks))"
    by (rule Max_insert [OF fin ne])
  have 1: "maxLiquidity h'
             = parseFloat (JSBI_toString (max 0 (Max (liquidityActive ` set ticks))))"
    using assms(1,2) m by (simp add: formatEffect_def formatData_maxLiquidity [OF assms(3,4)])
  have 2: "maxLiquidity h' = parseFloat (JSBI_toString (Max (liquidityActive ` set ticks)))"
    if "\<exists>t \<in> set ticks. 0 \<le> liquidityActive t"
  proof -
    from that obtain t where t: "t \<in> set ticks" "0 \<le> liquidityActive t" by blast
    then have "liquidityActive t \<le> Max (liquidityActive ` set ticks)"
      using fin by (intro Max_ge) simp_all
    with t(2) have "max 0 (Max (liquidityActive ` set ticks)) = Max (liquidityActive ` set ticks)"
      by simp
    with 1 show ?thesis by simp
  qed
  have 3: "markerOf (DensityChart p h') = Some [(x, Finite 0), (x, maxLiquidity h')]"
    if "price p = Some s" "s \<noteq> []" "0 < Max (liquidityActive ` set ticks)"
       "priceAtActiveTick h' = Some x" "truthy x"
  proof -
    have l: "\<not> loading h'"
      using assms(2) by (simp add: h'_def applySetters_frame)
    have f: "\<not> isEmptyArray (formattedData h')"
      using assms(2,4)
      by (simp add: h'_def formatEffect_def formatData_formattedData [OF assms(3,4)]
                    isEmptyArray_def)
    have t: "truthy (maxLiquidity h')"
      unfolding 1 parseFloat_JSBI_truthy using that(3) by simp
    show ?thesis
      using l f t that
      by (simp add: DensityChart_unfold markerLine_def useDensityChartData_def)
  qed
  from 1 2 3 show ?thesis by blast
qed

text \<open>
  The theorem at the example hook: the larger liquidity, 7, becomes the maximum, the
  price \<open>2\<close> of the active tick is stored, and the line goes from \<open>(2, 0)\<close> to
  \<open>(2, 7)\<close>.
\<close>

theorem max_liquidity_and_marker_line_witness:
  "\<not> loading ex_hook \<and> tickData ex_hook = Some [ex_tickA, ex_tickB]
   \<and> [ex_tickA, ex_tickB] \<noteq> []
   \<and> maxLiquidity (applySetters ex_hook (formatEffect ex_hook)) = Finite 7
   \<and> price ex_props = Some ''2''
   \<and> priceAtActiveTick (applySetters ex_hook (formatEffect ex_hook)) = Some (Finite 2)
   \<and> markerOf (DensityChart ex_props (applySetters ex_hook (formatEffect ex_hook)))
       = Some [(Finite 2, Finite 0), (Finite 2, Finite 7)]"
proof -
  let ?h' = "applySetters ex_hook (formatEffect ex_hook)"
  have l: "\<not> loading ex_hook" and t: "tickData ex_hook = Some [ex_tickA, ex_tickB]"
    by (simp_all add: ex_hook_def firstRender_def)
  have n: "[ex_tickA, ex_tickB] \<noteq> []" by simp
  have m: "Max (liquidityActive ` set [ex_tickA, ex_tickB]) = 7"
    by (simp add: ex_tickA_def ex_tickB_def)
  have pf: "parseFloat (JSBI_toString 7) = Finite 7"
    and pp: "parseFloat ''2.0000'' = Finite 2"
    by code_simp+
  have u: "[0 ..< 2] = [0, Suc 0]"
    by (simp add: numeral_2_eq_2)
  have js: "filter (\<lambda>j. isActive (Some (Finite 60)) ([ex_tickA, ex_tickB] ! j)) [0 ..< 2] = [1]"
    unfolding u by (simp add: isActive_def strictEq_def ex_tickA_def ex_tickB_def)
  have fe: "formatEffect ex_hook = formatData ex_hook"
    and a: "activeTick ex_hook = Some (Finite 60)"
    by (simp_all add: formatEffect_def ex_hook_def firstRender_def)
  have len: "length [ex_tickA, ex_tickB] = 2" by simp
  have x: "priceAtActiveTick ?h' = Some (Finite 2)"
    unfolding fe formatData_priceAtActiveTick [OF t n] a len js
    using pp by (simp add: entryAt_def ex_tickB_def)
  have pr: "price ex_props = Some ''2''" "''2'' \<noteq> []"
    by (simp_all add: ex_props_def)
  note th = max_liquidity_and_marker_line [OF l t n, of ex_props "''2''" "Finite 2"]
  from th m pf have 1: "maxLiquidity ?h' = Finite 7"
    by simp
  from th pr m x have "markerOf (DensityChart ex_props ?h')
                         = Some [(Finite 2, Finite 0), (Finite 2, maxLiquidity ?h')]"
    by simp
  with 1 have 2: "markerOf (DensityChart ex_props ?h')
                    = Some [(Finite 2, Finite 0), (Finite 2, Finite 7)]"
    by simp
  from 1 2 x l t n pr(1) show ?thesis by blast
qed

text \<open>
  The claim as written fails in three ways. With a single tick whose
  \<^verbatim>\<open>liquidityActive\<close> is \<open>-1\<close>, \<^verbatim>\<open>maxLiquidity\<close> becomes 0, while the maximum over the
  ticks parses to \<open>-1\<close>. After the pass over the two example ticks, the maximum is 7
  and \<^verbatim>\<open>priceAtActiveTick\<close> is 2, yet with \<^verbatim>\<open>price\<close> undefined no marker line is
  rendered. With \<^verbatim>\<open>"abc"\<close> for the price of the active tick, \<^verbatim>\<open>priceAtActiveTick\<close>
  becomes NaN, which is not zero, and the line is rendered without points.
\<close>

theorem marker_line_counterexample:
  "maxLiquidity
     (applySetters (ex_hook\<lparr>tickData := Some [ex_tickA\<lparr>liquidityActive := - 1\<rparr>]\<rparr>)
        (formatEffect (ex_hook\<lparr>tickData := Some [ex_tickA\<lparr>liquidityActive := - 1\<rparr>]\<rparr>)))
     = Finite 0
   \<and> parseFloat (JSBI_toString
        (Max (liquidityActive ` set [ex_tickA\<lparr>liquidityActive := - 1\<rparr>]))) = Finite (- 1)
   \<and> Max (liquidityActive ` set [ex_tickA, ex_tickB]) = 7
   \<and> priceAtActiveTick (applySetters ex_hook (formatEffect ex_hook)) = Some (Finite 2)
   \<and> markerOf (DensityChart (ex_props\<lparr>price := None\<rparr>)
                 (applySetters ex_hook (formatEffect ex_hook))) = None
   \<and> priceAtActiveTick
        (applySetters (ex_hook\<lparr>tickData := Some [ex_tickA, ex_tickB\<lparr>tick_price0 := ''abc''\<rparr>]\<rparr>)
           (formatEffect
              (ex_hook\<lparr>tickData := Some [ex_tickA, ex_tickB\<lparr>tick_price0 := ''abc''\<rparr>]\<rparr>)))
       = Some NaN
   \<and> markerOf
        (DensityChart ex_props
           (applySetters (ex_hook\<lparr>tickData := Some [ex_tickA, ex_tickB\<lparr>tick_price0 := ''abc''\<rparr>]\<rparr>)
              (formatEffect
                 (ex_hook\<lparr>tickData := Some [ex_tickA, ex_tickB\<lparr>tick_price0 := ''abc''\<rparr>]\<rparr>))))
       = Some []"
proof -
  let ?t = "ex_tickA\<lparr>liquidityActive := - 1\<rparr>"
  let ?a = "ex_hook\<lparr>tickData := Some [?t]\<rparr>"
  let ?u = "ex_tickB\<lparr>tick_price0 := ''abc''\<rparr>"
  let ?c = "ex_hook\<lparr>tickData := Some [ex_tickA, ?u]\<rparr>"
  let ?b' = "applySetters ex_hook (formatEffect ex_hook)"
  let ?c' = "applySetters ?c (formatEffect ?c)"
  have z: "parseFloat (JSBI_toString 0) = Finite 0"
    and m: "parseFloat (JSBI_toString (- 1)) = Finite (- 1)"
    and pp: "parseFloat ''2.0000'' = Finite 2"
    and pn: "parseFloat ''abc'' = NaN"
    by code_simp+
  have ta: "tickData ?a = Some [?t]" and na: "[?t] \<noteq> []" and la: "\<not> loading ?a"
    by (simp_all add: ex_hook_def firstRender_def)
  have "maxLiquidity (applySetters ?a (formatEffect ?a))
          = parseFloat (JSBI_toString (Max (insert 0 (liquidityActive ` set [?t]))))"
    using la by (simp add: formatEffect_def formatData_maxLiquidity [OF ta na])
  with z have 1: "maxLiquidity (applySetters ?a (formatEffect ?a)) = Finite 0"
    by simp
  from m have 2: "parseFloat (JSBI_toString (Max (liquidityActive ` set [?t]))) = Finite (- 1)"
    by simp
  have 3: "Max (liquidityActive ` set [ex_tickA, ex_tickB]) = 7"
    by (simp add: ex_tickA_def ex_tickB_def)
  have u: "[0 ..< 2] = [0, Suc 0]"
    by (simp add: numeral_2_eq_2)
  have js: "filter (\<lambda>j. isActive (Some (Finite 60)) ([ex_tickA, ex_tickB] ! j)) [0 ..< 2] = [1]"
    "filter (\<lambda>j. isActive (Some (Finite 60)) ([ex_tickA, ?u] ! j)) [0 ..< 2] = [1]"
    unfolding u by (simp_all add: isActive_def strictEq_def ex_tickA_def ex_tickB_def)
  have fb: "formatEffect ex_hook = formatData ex_hook"
    and fc: "formatEffect ?c = formatData ?c"
    and tb: "tickData ex_hook = Some [ex_tickA, ex_tickB]"
    and tc: "tickData ?c = Some [ex_tickA, ?u]"
    and ab: "activeTick ex_hook = Some (Finite 60)"
    and ac: "activeTick ?c = Some (Finite 60)"
    by (simp_all add: formatEffect_def ex_hook_def firstRender_def)
  have len: "length [ex_tickA, ex_tickB] = 2" "length [ex_tickA, ?u] = 2" by simp_all
  have nb: "[ex_tickA, ex_tickB] \<noteq> []" and nc: "[ex_tickA, ?u] \<noteq> []" by simp_all
  have 4: "priceAtActiveTick ?b' = Some (Finite 2)"
    unfolding fb formatData_priceAtActiveTick [OF tb nb] ab len js
    using pp by (simp add: entryAt_def ex_tickB_def)
  have rb: "\<not> loading ?b'" "\<not> isEmptyArray (formattedData ?b')"
    unfolding fb formatData_formattedData [OF tb nb]
    by (simp_all add: applySetters_frame isEmptyArray_def ex_hook_def firstRender_def)
  have 5: "markerOf (DensityChart (ex_props\<lparr>price := None\<rparr>) ?b') = None"
    using rb by (simp add: DensityChart_unfold markerLine_def)
  have 6: "priceAtActiveTick ?c' = Some NaN"
    unfolding fc formatData_priceAtActiveTick [OF tc nc] ac len js
    using pn by (simp add: entryAt_def)
  have rc: "\<not> loading ?c'" "\<not> isEmptyArray (formattedData ?c')"
    unfolding fc formatData_formattedData [OF tc nc]
    by (simp_all add: applySetters_frame isEmptyArray_def ex_hook_def firstRender_def)
  have 7: "markerOf (DensityChart ex_props ?c') = Some []"
    using rc 6
    by (simp add: DensityChart_unfold markerLine_def useDensityChartData_def ex_props_def)
  from 1 2 3 4 5 6 7 show ?thesis by blast
qed

end
